theory Spec2Isabelle
  imports Complex_Main
begin

section \<open>Data model (src/index.ts, interfaces)\<close>

text \<open>
  The TypeScript interfaces become records. A field of type \<open>number | null\<close> is an
  \<open>int option\<close>: \<open>None\<close> stands for \<open>null\<close> and for a field that is missing
  (\<open>undefined\<close>), which the code never tells apart. A number is an IEEE 754 double;
  the feed's numbers are integers, so a number field holds an \<open>int\<close>, and the arithmetic
  on them rounds as doubles do (next section). Field names that several interfaces share
  (\<open>id\<close>, \<open>name\<close>, \<open>members\<close>) carry a prefix, as does \<open>value\<close>.

  A JavaScript string is a sequence of UTF-16 code units: \<open>js_string\<close>. Text that the
  code builds from digits and ASCII letters only is kept as a \<open>string\<close> and turned into
  code units by \<open>units\<close>.
\<close>

type_synonym js_string = "nat list"

definition units :: "string \<Rightarrow> js_string" where
  "units s = map of_char s"

record ItemMapping =
  item_id :: int
  item_name :: js_string
  examine :: js_string
  item_members :: bool
  highalch :: "int option"
  lowalch :: "int option"
  item_value :: int
  limit :: "int option"

record PriceData =
  high :: "int option"
  highTime :: "int option"
  low :: "int option"
  lowTime :: "int option"

record AlchemyItem =
  alch_id :: int
  alch_name :: js_string
  alch_members :: bool
  highAlchValue :: int
  buyPrice :: int
  sellPrice :: int
  profit :: int
  buyLimit :: "int option"
  batchProfit :: int
  priceTimestamp :: "int option"

type_synonym prices = "string \<rightharpoonup> PriceData"

section \<open>JavaScript numbers\<close>

text \<open>
  The result of \<open>-\<close> and \<open>*\<close> on two doubles is the exact result rounded to the nearest
  double, ties to the even significand. Up to \<open>2 ^ 53\<close> every integer is a double; above,
  a double is a 53-bit integer times a power of two. A result of \<open>2 ^ 1024\<close> or more is
  \<open>Infinity\<close> in the code; the model has no such value, and what is proved of the
  arithmetic bounds its operands far below.
\<close>

definition round_half_even :: "int \<Rightarrow> int \<Rightarrow> int" where
  "round_half_even a b =
     (let q = a div b; r = a mod b
      in if 2 * r < b then q else if b < 2 * r then q + 1 else if even q then q else q + 1)"

fun floor_log2 :: "nat \<Rightarrow> nat" where
  "floor_log2 n = (if n < 2 then 0 else Suc (floor_log2 (n div 2)))"

declare floor_log2.simps [simp del]

definition double_round :: "int \<Rightarrow> int" where
  "double_round x =
     (if \<bar>x\<bar> < 2 ^ 53 then x
      else (let e = floor_log2 (nat \<bar>x\<bar>) - 52;
                q = round_half_even \<bar>x\<bar> (2 ^ e) * 2 ^ e
            in if x < 0 then - q else q))"

definition js_sub :: "int \<Rightarrow> int \<Rightarrow> int" where
  "js_sub a b = double_round (a - b)"

definition js_mul :: "int \<Rightarrow> int \<Rightarrow> int" where
  "js_mul a b = double_round (a * b)"

text \<open>\<open>v || d\<close> on a \<open>number | null\<close> \<open>v\<close>: the left operand when it is truthy.\<close>

definition or_else :: "int option \<Rightarrow> int \<Rightarrow> int" where
  "or_else v d = (case v of None \<Rightarrow> d | Some n \<Rightarrow> if n = 0 then d else n)"

text \<open>
  \<open>Number.prototype.toString\<close> on an integer. The language prints the shortest digit
  string \<open>s\<close> that, followed by \<open>j\<close> zeros, still rounds to the number (the closest one
  if there are several): all the digits below \<open>2 ^ 53\<close>, where every integer is a double
  of its own, and up to 17 digits above. With more than 21 digits in all, the digits are
  printed in exponent notation.
\<close>

definition digit_char :: "nat \<Rightarrow> char" where
  "digit_char d = ''0123456789'' ! d"

fun nat_toString :: "nat \<Rightarrow> string" where
  "nat_toString n =
     (if n < 10 then [digit_char n] else nat_toString (n div 10) @ [digit_char (n mod 10)])"

declare nat_toString.simps [simp del]

fun shortest :: "nat \<Rightarrow> int \<Rightarrow> int \<times> nat" where
  "shortest 0 a = (a, 0)"
| "shortest (Suc j) a =
     (let p = 10 ^ Suc j; s0 = a div p; s1 = s0 + 1;
          ok0 = (0 < s0 \<and> double_round (s0 * p) = a);
          ok1 = (double_round (s1 * p) = a)
      in if ok0 \<and> ok1 then (if a - s0 * p \<le> s1 * p - a then (s0, Suc j) else (s1, Suc j))
         else if ok0 then (s0, Suc j)
         else if ok1 then (s1, Suc j)
         else shortest j a)"

definition digits_and_zeros :: "int \<Rightarrow> string \<times> nat" where
  "digits_and_zeros a =
     (if a < 2 ^ 53 then (nat_toString (nat a), 0)
      else (case shortest (length (nat_toString (nat a))) a of
              (s, j) \<Rightarrow> (nat_toString (nat s), j)))"

definition positive_toString :: "int \<Rightarrow> string" where
  "positive_toString a =
     (case digits_and_zeros a of
        (ds, j) \<Rightarrow>
          (let k = length ds; n = k + j
           in if n \<le> 21 then ds @ replicate j CHR ''0''
              else if k = 1 then ds @ ''e+'' @ nat_toString (n - 1)
              else take 1 ds @ ''.'' @ drop 1 ds @ ''e+'' @ nat_toString (n - 1)))"

definition toString :: "int \<Rightarrow> string" where
  "toString n = (if n < 0 then ''-'' @ positive_toString (- n) else positive_toString n)"

text \<open>
  \<open>Array.prototype.sort(compareFn)\<close>: the language guarantees a stable sort that puts
  \<open>a\<close> before \<open>b\<close> when \<open>compareFn(a, b) < 0\<close>. It is modelled by insertion from the
  right, which keeps an element in front of the later elements it compares equal to.
\<close>

fun insort_cmp :: "('a \<Rightarrow> 'a \<Rightarrow> int) \<Rightarrow> 'a \<Rightarrow> 'a list \<Rightarrow> 'a list" where
  "insort_cmp cmp x [] = [x]"
| "insort_cmp cmp x (y # ys) =
     (if cmp x y \<le> 0 then x # y # ys else y # insort_cmp cmp x ys)"

definition sort_cmp :: "('a \<Rightarrow> 'a \<Rightarrow> int) \<Rightarrow> 'a list \<Rightarrow> 'a list" where
  "sort_cmp cmp xs = foldr (insort_cmp cmp) xs []"

section \<open>calculateProfits (src/index.ts, lines 105-154)\<close>

text \<open>Line 109: \<open>prices["561"]?.high || 100\<close>.\<close>

definition NATURE_RUNE_PRICE :: "prices \<Rightarrow> int" where
  "NATURE_RUNE_PRICE prices =
     or_else (case prices ''561'' of None \<Rightarrow> None | Some priceData \<Rightarrow> high priceData) 100"

text \<open>
  Lines 114-149, one pass of the \<open>for\<close> loop. \<open>pushed_record\<close> is the object that the
  pass hands to \<open>push\<close>, or \<open>None\<close> when the pass ends in a \<open>continue\<close> or the profit
  is not positive; \<open>loop_body\<close> is the effect of the pass on the array.
\<close>

definition pushed_record :: "prices \<Rightarrow> int \<Rightarrow> ItemMapping \<Rightarrow> AlchemyItem option" where
  "pushed_record prices nrp item =
     (case highalch item of
        None \<Rightarrow> None
      | Some ha \<Rightarrow>
          if ha = 0 \<or> ha \<le> 0 then None
          else (case prices (toString (item_id item)) of
                  None \<Rightarrow> None
                | Some priceData \<Rightarrow>
                    (let buyPrice = high priceData; sellPrice = low priceData in
                     case buyPrice of
                       None \<Rightarrow> None
                     | Some bp \<Rightarrow>
                         if bp = 0 then None
                         else (let profit = js_sub (js_sub ha bp) nrp in
                               if profit > 0 then
                                 (let effectiveLimit = or_else (limit item) 1000;
                                      batchProfit = js_mul profit effectiveLimit in
                                  Some \<lparr> alch_id = item_id item,
                                         alch_name = item_name item,
                                         alch_members = item_members item,
                                         highAlchValue = ha,
                                         buyPrice = bp,
                                         sellPrice = or_else sellPrice bp,
                                         profit = profit,
                                         buyLimit = limit item,
                                         batchProfit = batchProfit,
                                         priceTimestamp = highTime priceData \<rparr>)
                               else None))))"

definition loop_body ::
  "prices \<Rightarrow> int \<Rightarrow> AlchemyItem list \<Rightarrow> ItemMapping \<Rightarrow> AlchemyItem list" where
  "loop_body prices nrp profitableItems item =
     (case pushed_record prices nrp item of
        None \<Rightarrow> profitableItems
      | Some record \<Rightarrow> profitableItems @ [record])"

definition calculateProfits :: "ItemMapping list \<Rightarrow> prices \<Rightarrow> AlchemyItem list" where
  "calculateProfits items prices =
     (let nrp = NATURE_RUNE_PRICE prices;
          profitableItems = foldl (loop_body prices nrp) [] items
      in sort_cmp (\<lambda>a b. js_sub (profit b) (profit a)) profitableItems)"

section \<open>Quotients\<close>

text \<open>
  A quotient such as \<open>num / 1_000\<close> is an IEEE 754 double. A finite double is a pair of
  a signed 53-bit significand and an exponent, denoting \<open>significand * 2 ^ exponent\<close>.
  Overflow and subnormal numbers cannot arise from the quotients the code forms (an
  integer divided by a small positive constant) and are left out.
\<close>

datatype double = Double (significand: int) (exponent: int)

definition double_value :: "double \<Rightarrow> rat" where
  "double_value x = of_int (significand x) * 2 powi exponent x"

text \<open>For positive \<open>a\<close> and \<open>b\<close>, the \<open>k\<close> with \<open>2 ^ k \<le> a / b < 2 ^ (k + 1)\<close>.\<close>

definition binade :: "int \<Rightarrow> int \<Rightarrow> int" where
  "binade a b =
     (let k = int (floor_log2 (nat a)) - int (floor_log2 (nat b))
      in if b * 2 ^ nat k \<le> a * 2 ^ nat (- k) then k else k - 1)"

text \<open>
  The double nearest to \<open>a / b\<close> for positive \<open>a\<close> and \<open>b\<close>: the quotient is scaled
  into \<open>[2 ^ 52, 2 ^ 53)\<close> and rounded to an integer, ties to even.
\<close>

definition nearest_double :: "int \<Rightarrow> int \<Rightarrow> double" where
  "nearest_double a b =
     (let e = binade a b - 52
      in if 0 \<le> e then Double (round_half_even a (b * 2 ^ nat e)) e
         else Double (round_half_even (a * 2 ^ nat (- e)) b) e)"

text \<open>The operator \<open>/\<close> on an integer and a positive integer constant.\<close>

definition js_div :: "int \<Rightarrow> int \<Rightarrow> double" where
  "js_div a b =
     (if a = 0 then Double 0 0
      else if a < 0 then (case nearest_double (- a) b of Double m e \<Rightarrow> Double (- m) e)
      else nearest_double a b)"

text \<open>\<open>Math.floor\<close>, and \<open>x < k\<close> for an integer \<open>k\<close>.\<close>

definition Math_floor :: "double \<Rightarrow> int" where
  "Math_floor x =
     (if 0 \<le> exponent x then significand x * 2 ^ nat (exponent x)
      else significand x div 2 ^ nat (- exponent x))"

definition double_less :: "double \<Rightarrow> int \<Rightarrow> bool" where
  "double_less x k =
     (if 0 \<le> exponent x then significand x * 2 ^ nat (exponent x) < k
      else significand x < k * 2 ^ nat (- exponent x))"

text \<open>
  \<open>Number.prototype.toFixed(f)\<close>, as the language defines it: the sign is split off;
  from \<open>10 ^ 21\<close> on the result is that of \<open>toString\<close>; below, \<open>n\<close> is the integer
  for which \<open>n / 10 ^ f - x\<close> is closest to zero, the larger one if there are two
  (\<open>toFixed_n\<close>), its digits are padded with zeros to \<open>f + 1\<close> places and the point
  is put before the last \<open>f\<close> (\<open>insert_point\<close>).
\<close>

definition toFixed_n :: "double \<Rightarrow> nat \<Rightarrow> nat" where
  "toFixed_n x f =
     (let a = \<bar>significand x\<bar>; e = exponent x
      in nat (if 0 \<le> e then a * 2 ^ nat e * 10 ^ f
              else (2 * a * 10 ^ f + 2 ^ nat (- e)) div (2 * 2 ^ nat (- e))))"

definition insert_point :: "string \<Rightarrow> nat \<Rightarrow> string" where
  "insert_point m f =
     (if f = 0 then m
      else (let k = length m;
                m' = (if k \<le> f then replicate (f + 1 - k) CHR ''0'' @ m else m);
                k' = (if k \<le> f then f + 1 else k)
            in take (k' - f) m' @ ''.'' @ drop (k' - f) m'))"

definition toFixed :: "double \<Rightarrow> nat \<Rightarrow> string" where
  "toFixed x0 f =
     (let s = (if significand x0 < 0 then ''-'' else []);
          x = Double \<bar>significand x0\<bar> (exponent x0)
      in if \<not> double_less x (10 ^ 21) then s @ positive_toString (Math_floor x)
         else (let n = toFixed_n x f;
                   m = (if n = 0 then ''0'' else nat_toString n)
               in s @ insert_point m f))"

section \<open>Formatting helpers (src/index.ts, lines 46-83)\<close>

text \<open>
  \<open>toLocaleString("en-US")\<close> on an integer: its digits in groups of three, separated
  by commas. Below \<open>2 ^ 53\<close> these are all the digits of the integer; above, they are
  taken to be the digits that \<open>toString\<close> prints, followed by zeros.
\<close>

function group_thousands :: "string \<Rightarrow> string" where
  "group_thousands ds =
     (if length ds \<le> 3 then ds
      else group_thousands (take (length ds - 3) ds) @ '','' @ drop (length ds - 3) ds)"
  by pat_completeness auto
termination
  by (relation "measure length") auto

declare group_thousands.simps [simp del]

definition formatNumber :: "int \<Rightarrow> string" where
  "formatNumber num =
     (case digits_and_zeros \<bar>num\<bar> of
        (ds, j) \<Rightarrow>
          (if num < 0 then ''-'' else []) @ group_thousands (ds @ replicate j CHR ''0''))"

definition formatPrice :: "int \<Rightarrow> string" where
  "formatPrice num =
     (if num \<ge> 1000000000 then toFixed (js_div num 1000000000) 2 @ ''B''
      else if num \<ge> 1000000 then toFixed (js_div num 1000000) 2 @ ''M''
      else if num \<ge> 1000 then toFixed (js_div num 1000) 1 @ ''K''
      else toString num)"

text \<open>
  The marks of the output as UTF-16 code units. \<open>Date.now()\<close> is a parameter, in
  milliseconds.
\<close>

definition glyph_question :: js_string where
  "glyph_question = [0x2753]"

definition glyph_check :: js_string where
  "glyph_check = [0x2705]"

definition glyph_warning :: js_string where
  "glyph_warning = [0x26A0, 0xFE0F]"

definition glyph_cross :: js_string where
  "glyph_cross = [0x274C]"

definition glyph_infinity :: js_string where
  "glyph_infinity = [0x221E]"

definition glyph_arrows :: js_string where
  "glyph_arrows = [0xD83D, 0xDD04]"

definition glyph_abacus :: js_string where
  "glyph_abacus = [0xD83E, 0xDDEE]"

definition glyph_stopwatch :: js_string where
  "glyph_stopwatch = [0x23F1, 0xFE0F]"

definition newline :: js_string where
  "newline = [0x0A]"

definition formatTimeAgo :: "int \<Rightarrow> int option \<Rightarrow> string" where
  "formatTimeAgo Date_now timestamp =
     (case timestamp of
        None \<Rightarrow> ''Unknown''
      | Some t \<Rightarrow>
          if t = 0 then ''Unknown''
          else (let now = Math_floor (js_div Date_now 1000);
                    diff = js_sub now t
                in if diff < 60 then ''Just now''
                   else if diff < 3600 then toString (Math_floor (js_div diff 60)) @ ''m ago''
                   else if diff < 86400 then toString (Math_floor (js_div diff 3600)) @ ''h ago''
                   else toString (Math_floor (js_div diff 86400)) @ ''d ago''))"

definition getFreshnessIndicator :: "int \<Rightarrow> int option \<Rightarrow> js_string" where
  "getFreshnessIndicator Date_now timestamp =
     (case timestamp of
        None \<Rightarrow> glyph_question @ units '' Unknown''
      | Some t \<Rightarrow>
          if t = 0 then glyph_question @ units '' Unknown''
          else (let now = Math_floor (js_div Date_now 1000);
                    diff = js_sub now t;
                    minutes = js_div diff 60
                in if double_less minutes 10 then glyph_check @ units '' Fresh''
                   else if double_less minutes 30 then glyph_warning @ units '' Stale''
                   else glyph_cross @ units '' Old''))"

section \<open>displayResults (src/index.ts, lines 156-193)\<close>

text \<open>
  What the function writes, in order: each \<open>console.log\<close> call with its text, and the
  \<open>console.table\<close> call with its rows. The readings of the clock that the two
  freshness helpers take for row \<open>i\<close> are \<open>Date_now (2 * i)\<close> and
  \<open>Date_now (2 * i + 1)\<close>. A name is measured and cut in code units, as \<open>length\<close>
  and \<open>substring\<close> do.
\<close>

record table_row =
  col_number :: int
  col_Item :: js_string
  col_Members :: js_string
  col_Buy_Price :: js_string
  col_High_Alch :: js_string
  col_Profit :: js_string
  col_Buy_Limit :: js_string
  col_Batch_Profit :: js_string
  col_Price_Freshness :: js_string

datatype console_out = Log js_string | Table "table_row list"

definition table_row_of :: "(nat \<Rightarrow> int) \<Rightarrow> AlchemyItem \<Rightarrow> nat \<Rightarrow> table_row" where
  "table_row_of Date_now item index =
     \<lparr> col_number = int index + 1,
       col_Item = (if length (alch_name item) > 25
                   then take 22 (alch_name item) @ units ''...''
                   else alch_name item),
       col_Members = (if alch_members item then units ''Yes'' else units ''No''),
       col_Buy_Price = units (formatPrice (buyPrice item)),
       col_High_Alch = units (formatPrice (highAlchValue item)),
       col_Profit = units (formatPrice (profit item)),
       col_Buy_Limit = (case buyLimit item of
                          None \<Rightarrow> glyph_infinity
                        | Some l \<Rightarrow> if l = 0 then glyph_infinity else units (formatNumber l)),
       col_Batch_Profit = units (formatPrice (batchProfit item)),
       col_Price_Freshness =
         getFreshnessIndicator (Date_now (2 * index)) (priceTimestamp item) @ units '' ('' @
         units (formatTimeAgo (Date_now (2 * index + 1)) (priceTimestamp item)) @
         units '')'' \<rparr>"

text \<open>\<open>topItems[0]?.name || "N/A"\<close>: an empty name is falsy.\<close>

definition top_name :: "AlchemyItem list \<Rightarrow> js_string" where
  "top_name topItems =
     (case topItems of
        [] \<Rightarrow> units ''N/A''
      | item # _ \<Rightarrow> if alch_name item = [] then units ''N/A'' else alch_name item)"

definition displayResults :: "(nat \<Rightarrow> int) \<Rightarrow> AlchemyItem list \<Rightarrow> console_out list" where
  "displayResults Date_now items =
     (let topItems = take 50 items;
          tableData = map (\<lambda>(item, index). table_row_of Date_now item index)
                        (zip topItems [0..<length topItems])
      in [Log (newline @ replicate 100 (of_char CHR ''='')),
          Log (units ''                    OSRS HIGH ALCHEMY PROFIT TRACKER''),
          Log (replicate 100 (of_char CHR ''='')),
          Log (units ''Found '' @ units (toString (int (length items))) @
               units '' profitable items (sorted by profit per item)'' @ newline),
          Table tableData,
          Log (newline @ replicate 100 (of_char CHR ''='')),
          Log (units ''SUMMARY:''),
          Log (units ''- Total profitable items: '' @ units (toString (int (length items)))),
          Log (units ''- Top item: '' @ top_name topItems @ units '' ('' @
               units (formatPrice
                 (or_else (case topItems of [] \<Rightarrow> None | item # _ \<Rightarrow> Some (profit item)) 0)) @
               units '' profit each)''),
          Log (units ''- Best batch: '' @ top_name topItems @ units '' ('' @
               units (formatPrice
                 (or_else (case topItems of [] \<Rightarrow> None | item # _ \<Rightarrow> Some (batchProfit item)) 0)) @
               units '' per 4h cycle)''),
          Log (units ''- Nature rune cost: '' @ units (formatPrice 100) @
               units '' gp (estimated)''),
          Log (newline @ units ''Price Freshness Legend:''),
          Log (units ''  '' @ glyph_check @
               units '' Fresh - Price updated within last 10 minutes''),
          Log (units ''  '' @ glyph_warning @
               units '' Stale - Price updated 10-30 minutes ago''),
          Log (units ''  '' @ glyph_cross @
               units '' Old - Price updated more than 30 minutes ago''),
          Log (replicate 100 (of_char CHR ''='') @ newline)])"

section \<open>Response bodies\<close>

text \<open>
  \<open>response.json()\<close> yields whatever JSON the body holds; the casts at lines 91 and 100
  check nothing. A body is a JSON value. \<open>JFraction\<close> stands for a number that is not an
  integer, and the entries of an object are its properties after parsing, each key once.
\<close>

datatype json =
    JNull
  | JBool bool
  | JNumber int
  | JFraction
  | JString js_string
  | JArray "json list"
  | JObject "(js_string \<times> json) list"

text \<open>
  The bodies that match the interfaces. A property of type \<open>number | null\<close> may be a
  number, \<open>null\<close> or missing.
\<close>

definition as_number_or_null :: "json option \<Rightarrow> int option option" where
  "as_number_or_null field =
     (case field of
        None \<Rightarrow> Some None
      | Some JNull \<Rightarrow> Some None
      | Some (JNumber n) \<Rightarrow> Some (Some n)
      | Some _ \<Rightarrow> None)"

definition as_ItemMapping :: "json \<Rightarrow> ItemMapping option" where
  "as_ItemMapping v =
     (case v of
        JObject props \<Rightarrow>
          (case (map_of props (units ''id''), map_of props (units ''name''),
                 map_of props (units ''examine''), map_of props (units ''members''),
                 as_number_or_null (map_of props (units ''highalch'')),
                 as_number_or_null (map_of props (units ''lowalch'')),
                 map_of props (units ''value''),
                 as_number_or_null (map_of props (units ''limit''))) of
             (Some (JNumber i), Some (JString n), Some (JString e), Some (JBool m),
              Some ha, Some la, Some (JNumber val), Some lmt) \<Rightarrow>
               Some \<lparr> item_id = i, item_name = n, examine = e, item_members = m,
                      highalch = ha, lowalch = la, item_value = val, limit = lmt \<rparr>
           | _ \<Rightarrow> None)
      | _ \<Rightarrow> None)"

definition as_PriceData :: "json \<Rightarrow> PriceData option" where
  "as_PriceData v =
     (case v of
        JObject props \<Rightarrow>
          (case (as_number_or_null (map_of props (units ''high'')),
                 as_number_or_null (map_of props (units ''highTime'')),
                 as_number_or_null (map_of props (units ''low'')),
                 as_number_or_null (map_of props (units ''lowTime''))) of
             (Some h, Some ht, Some l, Some lt) \<Rightarrow>
               Some \<lparr> high = h, highTime = ht, low = l, lowTime = lt \<rparr>
           | _ \<Rightarrow> None)
      | _ \<Rightarrow> None)"

text \<open>
  What the code makes of the catalog body, where the model follows it: the value that
  \<open>items.length\<close> shows and the items that the loop runs over. An array of items is
  the expected shape. A string is accepted as well: the loop then runs over its
  characters, none of which has a \<open>highalch\<close>, so that every pass ends at line 115, as
  for an empty catalog. The code's conduct on any other body is not modelled.
\<close>

definition catalog_view :: "json \<Rightarrow> (nat \<times> ItemMapping list) option" where
  "catalog_view body =
     (case body of
        JArray elements \<Rightarrow>
          (case those (map as_ItemMapping elements) of
             Some items \<Rightarrow> Some (length elements, items)
           | None \<Rightarrow> None)
      | JString s \<Rightarrow> Some (length s, [])
      | _ \<Rightarrow> None)"

text \<open>
  The price object, where the model follows the code: an object whose values match
  \<open>PriceData\<close>, with the number of its keys and the lookup \<open>prices[key]\<close>.
\<close>

definition prices_view :: "json option \<Rightarrow> (nat \<times> prices) option" where
  "prices_view v =
     (case v of
        Some (JObject entries) \<Rightarrow>
          (case those (map (\<lambda>(key, p). map_option (Pair key) (as_PriceData p)) entries) of
             Some typed \<Rightarrow>
               Some (length (remdups (map fst entries)), \<lambda>key. map_of typed (units key))
           | None \<Rightarrow> None)
      | _ \<Rightarrow> None)"

section \<open>Fetching and main (src/index.ts, lines 85-102 and 195-231)\<close>

text \<open>
  A thrown value is an \<open>Error\<close> with its message, or something else. An awaited
  \<open>fetch\<close> either throws or yields a response, whose \<open>json()\<close> either throws (the body
  is not JSON) or yields the parsed body.
\<close>

datatype thrown = Error js_string | Not_an_Error

record response =
  ok :: bool
  status :: int
  statusText :: js_string
  json :: "thrown + json"

definition fetchItemMapping :: "thrown + response \<Rightarrow> thrown + json" where
  "fetchItemMapping fetched =
     (case fetched of
        Inl e \<Rightarrow> Inl e
      | Inr response \<Rightarrow>
          if \<not> ok response then
            Inl (Error (units ''Failed to fetch item mapping: '' @
                        units (toString (status response)) @ units '' '' @
                        statusText response))
          else json response)"

text \<open>
  Line 101, \<open>data.data\<close>: the property of an object, \<open>undefined\<close> (\<open>None\<close>) on a value
  that has no such property, and a \<open>TypeError\<close> on \<open>null\<close> (the message is Node's).
\<close>

definition fetchLatestPrices :: "thrown + response \<Rightarrow> thrown + json option" where
  "fetchLatestPrices fetched =
     (case fetched of
        Inl e \<Rightarrow> Inl e
      | Inr response \<Rightarrow>
          if \<not> ok response then
            Inl (Error (units ''Failed to fetch latest prices: '' @
                        units (toString (status response)) @ units '' '' @
                        statusText response))
          else (case json response of
                  Inl e \<Rightarrow> Inl e
                | Inr JNull \<Rightarrow>
                    Inl (Error (units ''Cannot read properties of null (reading '' @ [0x27] @
                                units ''data'' @ [0x27] @ units '')''))
                | Inr (JObject props) \<Rightarrow> Inr (map_of props (units ''data''))
                | Inr _ \<Rightarrow> Inr None))"

text \<open>
  \<open>Promise.all\<close> of two promises: both results, or the reason of the promise that
  rejects first; \<open>first_rejects_first\<close> says which one that is when both reject.
\<close>

definition Promise_all ::
  "bool \<Rightarrow> thrown + 'a \<Rightarrow> thrown + 'b \<Rightarrow> thrown + ('a \<times> 'b)" where
  "Promise_all first_rejects_first p q =
     (case (p, q) of
        (Inr x, Inr y) \<Rightarrow> Inr (x, y)
      | (Inl e, Inr _) \<Rightarrow> Inl e
      | (Inr _, Inl e) \<Rightarrow> Inl e
      | (Inl e1, Inl e2) \<Rightarrow> Inl (if first_rejects_first then e1 else e2))"

text \<open>
  What a run leaves behind: the calls on \<open>console.log\<close> and \<open>console.table\<close>, the
  texts written by \<open>console.error\<close>, and the exit status, which is 0 unless
  \<open>process.exit(1)\<close> is reached. \<open>Not_modelled\<close> is the outcome on a body whose shape
  the model does not follow.
\<close>

record run_result =
  stdout :: "console_out list"
  stderr :: "js_string list"
  exit_status :: int

datatype outcome = Run run_result | Not_modelled

text \<open>
  Line 225: \<open>console.error\<close> joins its two arguments with a space. Line 209:
  \<open>Object.keys\<close> throws a \<open>TypeError\<close> on \<open>undefined\<close> and on \<open>null\<close> (the message is
  Node's), before anything is printed.
\<close>

definition error_text :: "thrown \<Rightarrow> js_string" where
  "error_text error =
     (newline @ glyph_cross @ units '' Error:'') @ units '' '' @
       (case error of Error message \<Rightarrow> message | Not_an_Error \<Rightarrow> units ''Unknown error'')"

definition main ::
  "int \<Rightarrow> (nat \<Rightarrow> int) \<Rightarrow> int \<Rightarrow> bool \<Rightarrow> thrown + response \<Rightarrow> thrown + response \<Rightarrow>
   outcome" where
  "main startTime Date_now endTime first_rejects_first fetched_mapping fetched_latest =
     (let out0 = [Log (glyph_arrows @ units '' Fetching OSRS market data...'')] in
      case Promise_all first_rejects_first
             (fetchItemMapping fetched_mapping) (fetchLatestPrices fetched_latest) of
        Inl error \<Rightarrow>
          Run \<lparr> stdout = out0, stderr = [error_text error], exit_status = 1 \<rparr>
      | Inr (items_body, prices_value) \<Rightarrow>
          (case catalog_view items_body of
             None \<Rightarrow> Not_modelled
           | Some (items_length, items) \<Rightarrow>
               if prices_value = None \<or> prices_value = Some JNull then
                 Run \<lparr> stdout = out0,
                       stderr = [error_text
                         (Error (units ''Cannot convert undefined or null to object''))],
                       exit_status = 1 \<rparr>
               else
                (case prices_view prices_value of
                   None \<Rightarrow> Not_modelled
                 | Some (keys_length, prices) \<Rightarrow>
                    (let out1 = out0 @
                       [Log (glyph_check @ units '' Loaded '' @
                             units (toString (int items_length)) @ units '' items and '' @
                             units (toString (int keys_length)) @ units '' price entries''),
                        Log (glyph_abacus @ units '' Calculating High Alchemy profits...'')];
                         profitableItems = calculateProfits items prices
                     in if length profitableItems = 0 then
                          Run \<lparr> stdout = out1 @
                            [Log (newline @ glyph_cross @
                               units '' No profitable High Alchemy items found at current prices.''),
                             Log (units ''   Try again later when market prices change.'' @
                                  newline)],
                            stderr = [], exit_status = 0 \<rparr>
                        else
                          (let duration =
                                 toFixed (js_div (js_sub endTime startTime) 1000) 2
                           in Run \<lparr> stdout = out1 @ displayResults Date_now profitableItems @
                                    [Log (glyph_stopwatch @ units ''  Completed in '' @
                                          units duration @ units '' seconds'' @ newline)],
                                  stderr = [], exit_status = 0 \<rparr>)))))"

section \<open>calculateProfits on a heap\<close>

text \<open>
  To say what the function writes, its objects are put on a heap: a list of cells, the
  address of an object being its index. An array holds the addresses of its elements
  and the price object the addresses of its entries. Lines 105-154 allocate the array
  \<open>profitableItems\<close> (line 111), allocate a record and push its address (line 137), and
  sort that array in place (line 153); everything else reads.
\<close>

datatype cell =
    Item_object ItemMapping
  | Price_object PriceData
  | Record_object AlchemyItem
  | Price_map "(string \<times> nat) list"
  | Array "nat list"

type_synonym heap = "cell list"

definition item_at :: "heap \<Rightarrow> nat \<Rightarrow> ItemMapping option" where
  "item_at h a =
     (if a < length h then (case h ! a of Item_object item \<Rightarrow> Some item | _ \<Rightarrow> None)
      else None)"

definition price_at :: "heap \<Rightarrow> nat \<Rightarrow> PriceData option" where
  "price_at h a =
     (if a < length h then (case h ! a of Price_object p \<Rightarrow> Some p | _ \<Rightarrow> None)
      else None)"

definition record_at :: "heap \<Rightarrow> nat \<Rightarrow> AlchemyItem option" where
  "record_at h a =
     (if a < length h then (case h ! a of Record_object r \<Rightarrow> Some r | _ \<Rightarrow> None)
      else None)"

definition array_at :: "heap \<Rightarrow> nat \<Rightarrow> nat list option" where
  "array_at h a =
     (if a < length h then (case h ! a of Array xs \<Rightarrow> Some xs | _ \<Rightarrow> None)
      else None)"

definition price_map_at :: "heap \<Rightarrow> nat \<Rightarrow> (string \<times> nat) list option" where
  "price_map_at h a =
     (if a < length h then (case h ! a of Price_map m \<Rightarrow> Some m | _ \<Rightarrow> None)
      else None)"

text \<open>\<open>prices[key]\<close>, read through the heap.\<close>

definition prices_of :: "heap \<Rightarrow> nat \<Rightarrow> prices option" where
  "prices_of h prices_addr =
     (case price_map_at h prices_addr of
        None \<Rightarrow> None
      | Some m \<Rightarrow>
          Some (\<lambda>key. case map_of m key of None \<Rightarrow> None | Some a \<Rightarrow> price_at h a))"

text \<open>The three writes: allocation, \<open>push\<close> and \<open>sort\<close>.\<close>

definition new_object :: "cell \<Rightarrow> heap \<Rightarrow> nat \<times> heap" where
  "new_object c h = (length h, h @ [c])"

definition array_push :: "nat \<Rightarrow> nat \<Rightarrow> heap \<Rightarrow> heap" where
  "array_push a x h =
     (case array_at h a of Some xs \<Rightarrow> h[a := Array (xs @ [x])] | None \<Rightarrow> h)"

definition array_sort :: "nat \<Rightarrow> (nat \<Rightarrow> nat \<Rightarrow> int) \<Rightarrow> heap \<Rightarrow> heap" where
  "array_sort a cmp h =
     (case array_at h a of Some xs \<Rightarrow> h[a := Array (sort_cmp cmp xs)] | None \<Rightarrow> h)"

text \<open>
  \<open>for (const item of items)\<close>: the iterator reads the array anew at every step. The
  loop is given fuel; \<open>None\<close> is a loop that has not ended when the fuel is spent.
\<close>

fun for_of :: "nat \<Rightarrow> (heap \<Rightarrow> nat \<Rightarrow> heap) \<Rightarrow> nat \<Rightarrow> nat \<Rightarrow> heap \<Rightarrow> heap option" where
  "for_of 0 body items_addr i h = None"
| "for_of (Suc fuel) body items_addr i h =
     (case array_at h items_addr of
        None \<Rightarrow> None
      | Some xs \<Rightarrow>
          if i < length xs then for_of fuel body items_addr (Suc i) (body h (xs ! i))
          else Some h)"

text \<open>Lines 114-149 on the heap: a pass that pushes allocates the record first.\<close>

definition loop_pass :: "nat \<Rightarrow> nat \<Rightarrow> int \<Rightarrow> heap \<Rightarrow> nat \<Rightarrow> heap" where
  "loop_pass prices_addr profitableItems nrp h item_addr =
     (case (item_at h item_addr, prices_of h prices_addr) of
        (Some item, Some prices) \<Rightarrow>
          (case pushed_record prices nrp item of
             None \<Rightarrow> h
           | Some record \<Rightarrow>
               (case new_object (Record_object record) h of
                  (record_addr, h') \<Rightarrow> array_push profitableItems record_addr h'))
      | _ \<Rightarrow> h)"

definition profit_at :: "heap \<Rightarrow> nat \<Rightarrow> int" where
  "profit_at h a = (case record_at h a of Some r \<Rightarrow> profit r | None \<Rightarrow> 0)"

definition calculateProfits_on_heap ::
  "nat \<Rightarrow> nat \<Rightarrow> nat \<Rightarrow> heap \<Rightarrow> (nat \<times> heap) option" where
  "calculateProfits_on_heap fuel items_addr prices_addr h =
     (case prices_of h prices_addr of
        None \<Rightarrow> None
      | Some prices \<Rightarrow>
          (let nrp = NATURE_RUNE_PRICE prices in
           case new_object (Array []) h of
             (profitableItems, h1) \<Rightarrow>
               (case for_of fuel (loop_pass prices_addr profitableItems nrp) items_addr 0 h1 of
                  None \<Rightarrow> None
                | Some h2 \<Rightarrow>
                    Some (profitableItems,
                          array_sort profitableItems
                            (\<lambda>a b. js_sub (profit_at h2 b) (profit_at h2 a)) h2))))"

text \<open>The contents of an array of items and of an array of records.\<close>

definition catalog_of :: "heap \<Rightarrow> nat \<Rightarrow> ItemMapping list option" where
  "catalog_of h a =
     (case array_at h a of None \<Rightarrow> None | Some xs \<Rightarrow> those (map (item_at h) xs))"

definition records_of :: "heap \<Rightarrow> nat \<Rightarrow> AlchemyItem list option" where
  "records_of h a =
     (case array_at h a of None \<Rightarrow> None | Some xs \<Rightarrow> those (map (record_at h) xs))"

text \<open>Every entry of the price object leads to a price.\<close>

definition prices_well_formed :: "heap \<Rightarrow> nat \<Rightarrow> bool" where
  "prices_well_formed h prices_addr =
     (case price_map_at h prices_addr of
        None \<Rightarrow> False
      | Some m \<Rightarrow> list_all (\<lambda>(key, a). price_at h a \<noteq> None) m)"

text \<open>
  The heap while the loop runs, for the proofs: the heap \<open>h\<close> of the call, then the
  array \<open>profitableItems\<close> with the addresses of the records pushed so far, then
  these records in the order of their allocation.
\<close>

definition loop_heap :: "heap \<Rightarrow> AlchemyItem list \<Rightarrow> heap" where
  "loop_heap h rs =
     h @ Array (map (\<lambda>k. Suc (length h + k)) [0..<length rs]) # map Record_object rs"

section \<open>Example data\<close>

definition example_items :: "ItemMapping list" where
  "example_items =
    [\<lparr> item_id = 1, item_name = units ''Widget'', examine = [], item_members = False,
        highalch = Some 1000, lowalch = Some 600, item_value = 1500, limit = Some 100 \<rparr>,
     \<lparr> item_id = 2, item_name = units ''Gadget'', examine = [], item_members = True,
        highalch = Some 2000, lowalch = Some 1300, item_value = 3000, limit = None \<rparr>,
     \<lparr> item_id = 3, item_name = units ''Gizmo'', examine = [], item_members = False,
        highalch = Some 900, lowalch = Some 600, item_value = 1500, limit = Some 0 \<rparr>,
     \<lparr> item_id = 4, item_name = units ''Relic'', examine = [], item_members = True,
        highalch = Some 5000, lowalch = Some 3000, item_value = 8000, limit = Some 8 \<rparr>,
     \<lparr> item_id = 5, item_name = units ''Token'', examine = [], item_members = False,
        highalch = None, lowalch = None, item_value = 1, limit = None \<rparr>,
     \<lparr> item_id = 6, item_name = units ''Trinket'', examine = [], item_members = False,
        highalch = Some 100, lowalch = Some 60, item_value = 150, limit = Some 50 \<rparr>]"

definition example_prices :: prices where
  "example_prices =
    [''1'' \<mapsto> \<lparr> high = Some 500, highTime = Some 1700000000, low = Some 400, lowTime = Some 1700000000 \<rparr>,
     ''2'' \<mapsto> \<lparr> high = Some 1000, highTime = Some 1700000000, low = None, lowTime = None \<rparr>,
     ''3'' \<mapsto> \<lparr> high = Some 400, highTime = None, low = Some 0, lowTime = None \<rparr>,
     ''4'' \<mapsto> \<lparr> high = Some 0, highTime = None, low = Some 4000, lowTime = Some 1700000000 \<rparr>,
     ''6'' \<mapsto> \<lparr> high = Some 500, highTime = Some 1700000000, low = Some 450, lowTime = Some 1700000000 \<rparr>,
     ''561'' \<mapsto> \<lparr> high = Some 120, highTime = Some 1700000000, low = Some 118, lowTime = Some 1700000000 \<rparr>]"

definition widget_record :: AlchemyItem where
  "widget_record =
     \<lparr> alch_id = 1, alch_name = units ''Widget'', alch_members = False, highAlchValue = 1000,
        buyPrice = 500, sellPrice = 400, profit = 380, buyLimit = Some 100,
        batchProfit = 38000, priceTimestamp = Some 1700000000 \<rparr>"

definition prices_without_reagent :: prices where
  "prices_without_reagent =
     [''1'' \<mapsto> \<lparr> high = Some 500, highTime = Some 1700000000, low = Some 400,
                  lowTime = Some 1700000000 \<rparr>]"

definition relic_item :: ItemMapping where
  "relic_item = \<lparr> item_id = 4, item_name = units ''Relic'', examine = [], item_members = True,
        highalch = Some 5000, lowalch = Some 3000, item_value = 8000, limit = Some 8 \<rparr>"

definition relic_price :: PriceData where
  "relic_price = \<lparr> high = Some 0, highTime = None, low = Some 4000, lowTime = Some 1700000000 \<rparr>"

definition gizmo_record :: AlchemyItem where
  "gizmo_record =
     \<lparr> alch_id = 3, alch_name = units ''Gizmo'', alch_members = False, highAlchValue = 900,
        buyPrice = 400, sellPrice = 400, profit = 380, buyLimit = Some 0,
        batchProfit = 380000, priceTimestamp = None \<rparr>"

definition gadget_record :: AlchemyItem where
  "gadget_record =
     \<lparr> alch_id = 2, alch_name = units ''Gadget'', alch_members = True, highAlchValue = 2000,
        buyPrice = 1000, sellPrice = 1000, profit = 880, buyLimit = None,
        batchProfit = 880000, priceTimestamp = Some 1700000000 \<rparr>"





definition fixed_clock :: "nat \<Rightarrow> int" where
  "fixed_clock i = 1700000300000"

definition summary_items :: "ItemMapping list" where
  "summary_items =
    [\<lparr> item_id = 1, item_name = units ''Alpha'', examine = [], item_members = False,
        highalch = Some 1000, lowalch = Some 600, item_value = 1500, limit = Some 1 \<rparr>,
     \<lparr> item_id = 2, item_name = units ''Beta'', examine = [], item_members = False,
        highalch = Some 1000, lowalch = Some 600, item_value = 1500, limit = Some 100 \<rparr>]"

definition summary_prices :: prices where
  "summary_prices =
    [''1'' \<mapsto> \<lparr> high = Some 500, highTime = None, low = None, lowTime = None \<rparr>,
     ''2'' \<mapsto> \<lparr> high = Some 600, highTime = None, low = None, lowTime = None \<rparr>,
     ''561'' \<mapsto> \<lparr> high = Some 120, highTime = None, low = None, lowTime = None \<rparr>]"

definition alpha_record :: AlchemyItem where
  "alpha_record =
     \<lparr> alch_id = 1, alch_name = units ''Alpha'', alch_members = False, highAlchValue = 1000,
        buyPrice = 500, sellPrice = 500, profit = 380, buyLimit = Some 1,
        batchProfit = 380, priceTimestamp = None \<rparr>"

definition beta_record :: AlchemyItem where
  "beta_record =
     \<lparr> alch_id = 2, alch_name = units ''Beta'', alch_members = False, highAlchValue = 1000,
        buyPrice = 600, sellPrice = 600, profit = 280, buyLimit = Some 100,
        batchProfit = 28000, priceTimestamp = None \<rparr>"

text \<open>Responses: a catalog of one item that yields no profit, and its prices.\<close>

definition trinket_elements :: "json list" where
  "trinket_elements =
     [JObject [(units ''examine'', JString (units ''A small trinket.'')),
               (units ''id'', JNumber 6), (units ''members'', JBool False),
               (units ''lowalch'', JNumber 60), (units ''limit'', JNumber 50),
               (units ''value'', JNumber 150), (units ''highalch'', JNumber 100),
               (units ''name'', JString (units ''Trinket''))]]"

definition trinket_items :: "ItemMapping list" where
  "trinket_items =
     [\<lparr> item_id = 6, item_name = units ''Trinket'', examine = units ''A small trinket.'',
        item_members = False, highalch = Some 100, lowalch = Some 60, item_value = 150,
        limit = Some 50 \<rparr>]"

definition trinket_entries :: "(js_string \<times> json) list" where
  "trinket_entries =
     [(units ''6'', JObject [(units ''high'', JNumber 500),
                             (units ''highTime'', JNumber 1700000000),
                             (units ''low'', JNumber 450),
                             (units ''lowTime'', JNumber 1700000000)])]"

definition trinket_typed :: "(js_string \<times> PriceData) list" where
  "trinket_typed =
     [(units ''6'', \<lparr> high = Some 500, highTime = Some 1700000000, low = Some 450,
                     lowTime = Some 1700000000 \<rparr>)]"

definition mapping_fetched :: response where
  "mapping_fetched =
     \<lparr> ok = True, status = 200, statusText = units ''OK'', json = Inr (JArray trinket_elements) \<rparr>"

definition latest_fetched :: response where
  "latest_fetched =
     \<lparr> ok = True, status = 200, statusText = units ''OK'',
       json = Inr (JObject [(units ''data'', JObject trinket_entries)]) \<rparr>"

definition mapping_refused :: response where
  "mapping_refused =
     \<lparr> ok = False, status = 500, statusText = units ''Internal Server Error'',
       json = Inl Not_an_Error \<rparr>"

text \<open>A response whose body is JSON, but a string instead of the catalog.\<close>

definition mapping_maintenance :: response where
  "mapping_maintenance =
     \<lparr> ok = True, status = 200, statusText = units ''OK'',
       json = Inr (JString (units ''maintenance'')) \<rparr>"

text \<open>
  A heap that holds the two items of the summary example (cells 0 and 1), their prices
  and the price of the reagent (cells 2 to 4), the price object (cell 5) and the
  catalog (cell 6).
\<close>

definition example_heap :: heap where
  "example_heap =
     [Item_object \<lparr> item_id = 1, item_name = units ''Alpha'', examine = [],
                    item_members = False, highalch = Some 1000, lowalch = Some 600,
                    item_value = 1500, limit = Some 1 \<rparr>,
      Item_object \<lparr> item_id = 2, item_name = units ''Beta'', examine = [],
                    item_members = False, highalch = Some 1000, lowalch = Some 600,
                    item_value = 1500, limit = Some 100 \<rparr>,
      Price_object \<lparr> high = Some 500, highTime = None, low = None, lowTime = None \<rparr>,
      Price_object \<lparr> high = Some 600, highTime = None, low = None, lowTime = None \<rparr>,
      Price_object \<lparr> high = Some 120, highTime = None, low = None, lowTime = None \<rparr>,
      Price_map [(''1'', 2), (''2'', 3), (''561'', 4)],
      Array [0, 1]]"

section \<open>Evaluation on numerals\<close>

text \<open>
  The recursive equations of \<open>nat_toString\<close> and \<open>floor_log2\<close> are not simplification
  rules; these instances unfold them on literal numbers only.
\<close>

lemmas nat_toString_eval =
  nat_toString.simps [of 0] nat_toString.simps [of 1] nat_toString.simps [of "Suc 0"]
  nat_toString.simps [of "numeral k" for k]

lemmas floor_log2_eval =
  floor_log2.simps [of 0] floor_log2.simps [of 1] floor_log2.simps [of "Suc 0"]
  floor_log2.simps [of "numeral k" for k]

lemmas toString_eval = toString_def positive_toString_def digits_and_zeros_def
  nat_toString_eval digit_char_def

lemmas double_round_eval = js_sub_def js_mul_def double_round_def round_half_even_def
  floor_log2_eval Let_def

section \<open>Rounding to a double\<close>

lemma floor_log2_bounds:
  "0 < n \<Longrightarrow> 2 ^ floor_log2 n \<le> n \<and> n < 2 ^ Suc (floor_log2 n)"
proof (induction n rule: floor_log2.induct)
  case (1 n)
  show ?case
  proof (cases "n < 2")
    case True
    with "1.prems" have "n = 1" by simp
    then show ?thesis by (simp add: floor_log2.simps)
  next
    case False
    then have pos: "0 < n div 2" by simp
    from "1.IH" [OF False pos]
    have lo: "2 ^ floor_log2 (n div 2) \<le> n div 2"
      and hi: "n div 2 < 2 ^ Suc (floor_log2 (n div 2))"
      by simp_all
    have eq: "floor_log2 n = Suc (floor_log2 (n div 2))"
      using False by (subst floor_log2.simps) simp
    from lo have "2 * 2 ^ floor_log2 (n div 2) \<le> n" by linarith
    moreover from hi have "n < 2 * 2 ^ Suc (floor_log2 (n div 2))" by linarith
    ultimately show ?thesis by (simp add: eq)
  qed
qed

lemma round_half_even_nonneg: "0 \<le> a \<Longrightarrow> 0 < b \<Longrightarrow> 0 \<le> round_half_even a b"
  by (simp add: round_half_even_def Let_def pos_imp_zdiv_nonneg_iff)

lemma round_half_even_pos:
  assumes "0 < b" "b \<le> a"
  shows "0 < round_half_even a b"
proof -
  from assms have "0 < a div b"
    by (simp add: pos_imp_zdiv_pos_iff)
  moreover have "a div b \<le> round_half_even a b"
    by (simp add: round_half_even_def Let_def)
  ultimately show ?thesis by simp
qed

lemma double_round_at_limit:
  "double_round 9007199254740992 = 9007199254740992"
  "double_round (- 9007199254740992) = - 9007199254740992"
  by (simp_all add: double_round_eval)

lemma double_round_exact: "\<bar>x\<bar> \<le> 2 ^ 53 \<Longrightarrow> double_round x = x"
proof (cases "\<bar>x\<bar> < 2 ^ 53")
  case True
  then show ?thesis by (simp add: double_round_def)
next
  case False
  assume "\<bar>x\<bar> \<le> 2 ^ 53"
  with False have "x = 9007199254740992 \<or> x = - 9007199254740992" by simp linarith
  then show ?thesis
    using double_round_at_limit by (elim disjE) simp_all
qed

lemma double_round_large_pos:
  assumes "2 ^ 53 \<le> a"
  shows "0 < round_half_even a (2 ^ (floor_log2 (nat a) - 52)) * 2 ^ (floor_log2 (nat a) - 52)"
proof -
  from assms have pos: "0 < nat a" by simp
  from floor_log2_bounds [OF pos] have "2 ^ floor_log2 (nat a) \<le> nat a" by simp
  then have le: "(2::int) ^ floor_log2 (nat a) \<le> a"
    using assms by (simp add: le_nat_iff)
  have "(2::int) ^ (floor_log2 (nat a) - 52) \<le> 2 ^ floor_log2 (nat a)"
    by (intro power_increasing) simp_all
  with le have "(2::int) ^ (floor_log2 (nat a) - 52) \<le> a" by linarith
  then have "0 < round_half_even a (2 ^ (floor_log2 (nat a) - 52))"
    by (intro round_half_even_pos) simp_all
  then show ?thesis by simp
qed

lemma double_round_pos_iff: "0 < double_round x \<longleftrightarrow> 0 < x"
proof (cases "\<bar>x\<bar> < 2 ^ 53")
  case True
  then show ?thesis by (simp add: double_round_def)
next
  case False
  define q where
    "q = round_half_even \<bar>x\<bar> (2 ^ (floor_log2 (nat \<bar>x\<bar>) - 52)) *
         2 ^ (floor_log2 (nat \<bar>x\<bar>) - 52)"
  from False have big: "2 ^ 53 \<le> \<bar>x\<bar>" by simp
  from double_round_large_pos [OF big] have q: "0 < q" by (simp only: q_def)
  have eq: "double_round x = (if x < 0 then - q else q)"
    using False by (simp only: double_round_def Let_def q_def if_False)
  from big have "x \<noteq> 0" by auto
  with q show ?thesis by (simp add: eq)
qed

lemma double_round_nonpos_iff: "double_round x \<le> 0 \<longleftrightarrow> x \<le> 0"
  using double_round_pos_iff [of x] by linarith

lemma js_sub_nonpos_iff: "js_sub a b \<le> 0 \<longleftrightarrow> a \<le> b"
  by (simp add: js_sub_def double_round_nonpos_iff)

lemma js_sub_exact: "\<bar>a - b\<bar> \<le> 2 ^ 53 \<Longrightarrow> js_sub a b = a - b"
  by (simp add: js_sub_def double_round_exact)


section \<open>Properties of calculateProfits\<close>

lemma loop_body_append:
  "loop_body prices nrp acc item = acc @ loop_body prices nrp [] item"
  by (simp add: loop_body_def split: option.splits)

lemma foldl_loop_body:
  "foldl (loop_body prices nrp) acc items =
     acc @ concat (map (loop_body prices nrp []) items)"
proof (induction items arbitrary: acc)
  case Nil
  show ?case by simp
next
  case (Cons item items)
  have "foldl (loop_body prices nrp) acc (item # items) =
          foldl (loop_body prices nrp) (loop_body prices nrp acc item) items"
    by simp
  also have "\<dots> = loop_body prices nrp acc item @ concat (map (loop_body prices nrp []) items)"
    by (rule Cons.IH)
  also have "\<dots> = acc @ loop_body prices nrp [] item @ concat (map (loop_body prices nrp []) items)"
    by (subst loop_body_append) simp
  finally show ?case by simp
qed

lemma set_insort_cmp: "set (insort_cmp cmp x ys) = insert x (set ys)"
  by (induction ys) auto

lemma set_sort_cmp: "set (sort_cmp cmp xs) = set xs"
  by (induction xs) (simp_all add: sort_cmp_def set_insort_cmp)

lemma set_calculateProfits:
  "set (calculateProfits items prices) =
     (\<Union>item \<in> set items. set (loop_body prices (NATURE_RUNE_PRICE prices) [] item))"
  by (simp add: calculateProfits_def Let_def set_sort_cmp foldl_loop_body)

lemma pushed_record_fields:
  assumes "pushed_record prices nrp item = Some r"
  shows "\<exists>ha priceData bp.
           highalch item = Some ha \<and> 0 < ha \<and>
           prices (toString (item_id item)) = Some priceData \<and>
           high priceData = Some bp \<and> bp \<noteq> 0 \<and>
           0 < js_sub (js_sub ha bp) nrp \<and>
           r = \<lparr> alch_id = item_id item, alch_name = item_name item,
                 alch_members = item_members item, highAlchValue = ha, buyPrice = bp,
                 sellPrice = or_else (low priceData) bp,
                 profit = js_sub (js_sub ha bp) nrp,
                 buyLimit = limit item,
                 batchProfit = js_mul (js_sub (js_sub ha bp) nrp) (or_else (limit item) 1000),
                 priceTimestamp = highTime priceData \<rparr>"
  using assms
  by (auto simp: pushed_record_def Let_def split: option.splits if_splits)

lemma loop_body_emits:
  assumes "r \<in> set (loop_body prices nrp [] item)"
  obtains ha priceData bp where
    "highalch item = Some ha" "0 < ha"
    "prices (toString (item_id item)) = Some priceData"
    "high priceData = Some bp" "bp \<noteq> 0"
    "alch_id r = item_id item" "highAlchValue r = ha" "buyPrice r = bp"
    "sellPrice r = or_else (low priceData) bp"
    "profit r = js_sub (js_sub ha bp) nrp" "0 < profit r"
    "buyLimit r = limit item"
    "batchProfit r = js_mul (profit r) (or_else (limit item) 1000)"
proof -
  from assms have "pushed_record prices nrp item = Some r"
    by (simp add: loop_body_def split: option.splits)
  from pushed_record_fields [OF this] obtain ha priceData bp where
    item: "highalch item = Some ha" "0 < ha"
      "prices (toString (item_id item)) = Some priceData"
      "high priceData = Some bp" "bp \<noteq> 0" "0 < js_sub (js_sub ha bp) nrp"
    and r: "r = \<lparr> alch_id = item_id item, alch_name = item_name item,
                 alch_members = item_members item, highAlchValue = ha, buyPrice = bp,
                 sellPrice = or_else (low priceData) bp,
                 profit = js_sub (js_sub ha bp) nrp,
                 buyLimit = limit item,
                 batchProfit = js_mul (js_sub (js_sub ha bp) nrp) (or_else (limit item) 1000),
                 priceTimestamp = highTime priceData \<rparr>"
    by blast
  show thesis
  proof (rule that [of ha priceData bp])
    show "0 < profit r" using item(6) by (simp add: r)
  qed (simp_all add: item r)
qed

lemmas run_simps = calculateProfits_def loop_body_def pushed_record_def NATURE_RUNE_PRICE_def
  or_else_def toString_eval double_round_eval sort_cmp_def

lemma example_run:
  "calculateProfits example_items example_prices =
     [gadget_record, widget_record, gizmo_record]"
  by (simp add: example_items_def example_prices_def gadget_record_def widget_record_def
      gizmo_record_def run_simps)






text \<open>
  Claim C5. When the price map has no entry under the key "561", or the entry has no
  recorded high price, the reagent cost is 100, and 100 is what every returned record's
  profit was computed with: the profit is the alchemy value minus the buy price minus 100
  in the code's arithmetic, and exactly so whenever neither difference exceeds \<open>2 ^ 53\<close>
  in magnitude.
\<close>

theorem reagent_cost_fallback:
  assumes "prices ''561'' = None \<or> (\<exists>priceData. prices ''561'' = Some priceData \<and> high priceData = None)"
  shows "NATURE_RUNE_PRICE prices = 100 \<and>
         (\<forall>r \<in> set (calculateProfits items prices).
            profit r = js_sub (js_sub (highAlchValue r) (buyPrice r)) 100 \<and>
            (\<bar>highAlchValue r - buyPrice r\<bar> \<le> 2 ^ 53 \<and>
             \<bar>highAlchValue r - buyPrice r - 100\<bar> \<le> 2 ^ 53 \<longrightarrow>
               profit r = highAlchValue r - buyPrice r - 100))"
proof -
  from assms have nrp: "NATURE_RUNE_PRICE prices = 100"
    by (auto simp: NATURE_RUNE_PRICE_def or_else_def)
  have "profit r = js_sub (js_sub (highAlchValue r) (buyPrice r)) 100 \<and>
            (\<bar>highAlchValue r - buyPrice r\<bar> \<le> 2 ^ 53 \<and>
             \<bar>highAlchValue r - buyPrice r - 100\<bar> \<le> 2 ^ 53 \<longrightarrow>
               profit r = highAlchValue r - buyPrice r - 100)"
    if "r \<in> set (calculateProfits items prices)" for r
  proof -
    from that obtain item where "r \<in> set (loop_body prices (NATURE_RUNE_PRICE prices) [] item)"
      by (auto simp: set_calculateProfits)
    then have "profit r = js_sub (js_sub (highAlchValue r) (buyPrice r)) 100"
      using nrp by (elim loop_body_emits) simp
    then show ?thesis by (simp add: js_sub_exact)
  qed
  with nrp show ?thesis by blast
qed

lemma run_without_reagent:
  "calculateProfits example_items prices_without_reagent =
     [\<lparr> alch_id = 1, alch_name = units ''Widget'', alch_members = False,
        highAlchValue = 1000, buyPrice = 500, sellPrice = 400, profit = 400,
        buyLimit = Some 100, batchProfit = 40000, priceTimestamp = Some 1700000000 \<rparr>]"
  by (simp add: example_items_def prices_without_reagent_def run_simps)

theorem reagent_cost_fallback_witness:
  "(prices_without_reagent ''561'' = None \<or>
      (\<exists>priceData. prices_without_reagent ''561'' = Some priceData \<and> high priceData = None)) \<and>
   NATURE_RUNE_PRICE prices_without_reagent = 100 \<and>
   calculateProfits example_items prices_without_reagent \<noteq> [] \<and>
   profit (hd (calculateProfits example_items prices_without_reagent)) =
     highAlchValue (hd (calculateProfits example_items prices_without_reagent)) -
     buyPrice (hd (calculateProfits example_items prices_without_reagent)) - 100"
proof -
  have h: "prices_without_reagent ''561'' = None \<or>
      (\<exists>priceData. prices_without_reagent ''561'' = Some priceData \<and> high priceData = None)"
    by (simp add: prices_without_reagent_def)
  have ne: "calculateProfits example_items prices_without_reagent \<noteq> []"
    by (simp add: run_without_reagent)
  then have mem: "hd (calculateProfits example_items prices_without_reagent) \<in>
      set (calculateProfits example_items prices_without_reagent)"
    by (rule hd_in_set)
  have small: "\<bar>highAlchValue (hd (calculateProfits example_items prices_without_reagent)) -
       buyPrice (hd (calculateProfits example_items prices_without_reagent))\<bar> \<le> 2 ^ 53"
    "\<bar>highAlchValue (hd (calculateProfits example_items prices_without_reagent)) -
       buyPrice (hd (calculateProfits example_items prices_without_reagent)) - 100\<bar> \<le> 2 ^ 53"
    by (simp_all add: run_without_reagent)
  from reagent_cost_fallback
    [where prices = prices_without_reagent and items = example_items, OF h] mem small
  have "NATURE_RUNE_PRICE prices_without_reagent = 100"
    "profit (hd (calculateProfits example_items prices_without_reagent)) =
     highAlchValue (hd (calculateProfits example_items prices_without_reagent)) -
     buyPrice (hd (calculateProfits example_items prices_without_reagent)) - 100"
    by blast+
  with h ne show ?thesis by blast
qed

text \<open>
  Claim C9. An item whose entry in the price map records a high price of 0 is skipped by
  the loop (the array is left as it was), and no returned record carries its identifier,
  whatever its alchemy value.
\<close>

theorem zero_high_price_skipped:
  assumes "item \<in> set items"
    and "prices (toString (item_id item)) = Some priceData"
    and "high priceData = Some 0"
  shows "loop_body prices nrp acc item = acc \<and>
         (\<forall>r \<in> set (calculateProfits items prices). alch_id r \<noteq> item_id item)"
proof
  from assms(2,3) show "loop_body prices nrp acc item = acc"
    by (simp add: loop_body_def pushed_record_def split: option.splits)
next
  show "\<forall>r \<in> set (calculateProfits items prices). alch_id r \<noteq> item_id item"
  proof
    fix r assume "r \<in> set (calculateProfits items prices)"
    then obtain item' where "r \<in> set (loop_body prices (NATURE_RUNE_PRICE prices) [] item')"
      by (auto simp: set_calculateProfits)
    then show "alch_id r \<noteq> item_id item"
      using assms(2,3) by (elim loop_body_emits) auto
  qed
qed

theorem zero_high_price_skipped_witness:
  "relic_item \<in> set example_items \<and>
   example_prices (toString (item_id relic_item)) = Some relic_price \<and>
   high relic_price = Some 0 \<and> highalch relic_item = Some 5000 \<and>
   loop_body example_prices 120 [] relic_item = [] \<and>
   item_id relic_item \<notin> set (map alch_id (calculateProfits example_items example_prices))"
proof -
  have h1: "relic_item \<in> set example_items"
    by (simp add: relic_item_def example_items_def)
  have h2: "example_prices (toString (item_id relic_item)) = Some relic_price"
    by (simp add: relic_item_def relic_price_def example_prices_def toString_eval)
  have h3: "high relic_price = Some 0" "highalch relic_item = Some 5000"
    by (simp_all add: relic_price_def relic_item_def)
  from zero_high_price_skipped
    [where prices = example_prices and nrp = 120 and acc = "[]", OF h1 h2 h3(1)]
  have "loop_body example_prices 120 [] relic_item = []"
    and "item_id relic_item \<notin> set (map alch_id (calculateProfits example_items example_prices))"
    by auto
  with h1 h2 h3 show ?thesis by blast
qed

text \<open>
  Claim C10. In every returned record the sell price is the recorded low price of the
  item's entry when that is present and non-zero, and the record's buy price otherwise.
\<close>

theorem sellPrice_choice:
  assumes "r \<in> set (calculateProfits items prices)"
  shows "\<exists>priceData. prices (toString (alch_id r)) = Some priceData \<and>
           high priceData = Some (buyPrice r) \<and>
           sellPrice r =
             (case low priceData of
                None \<Rightarrow> buyPrice r
              | Some l \<Rightarrow> if l = 0 then buyPrice r else l)"
proof -
  from assms obtain item where "r \<in> set (loop_body prices (NATURE_RUNE_PRICE prices) [] item)"
    by (auto simp: set_calculateProfits)
  then show ?thesis
    by (elim loop_body_emits) (simp add: or_else_def split: option.splits)
qed

theorem sellPrice_choice_witness:
  "gizmo_record \<in> set (calculateProfits example_items example_prices) \<and>
   (\<exists>priceData. example_prices (toString (alch_id gizmo_record)) = Some priceData \<and>
           high priceData = Some (buyPrice gizmo_record) \<and>
           sellPrice gizmo_record =
             (case low priceData of
                None \<Rightarrow> buyPrice gizmo_record
              | Some l \<Rightarrow> if l = 0 then buyPrice gizmo_record else l))"
proof -
  have h: "gizmo_record \<in> set (calculateProfits example_items example_prices)"
    by (simp add: example_run)
  from h sellPrice_choice [OF h] show ?thesis by (rule conjI)
qed

lemma sorted_insort_cmp:
  fixes f :: "'a \<Rightarrow> int"
  assumes "\<And>a b. cmp a b \<le> 0 \<longleftrightarrow> f b \<le> f a"
  shows "sorted_wrt (\<lambda>a b. f b \<le> f a) ys \<Longrightarrow>
         sorted_wrt (\<lambda>a b. f b \<le> f a) (insort_cmp cmp x ys)"
  by (induction ys) (auto simp: set_insort_cmp assms)

lemma sorted_sort_cmp:
  fixes f :: "'a \<Rightarrow> int"
  assumes "\<And>a b. cmp a b \<le> 0 \<longleftrightarrow> f b \<le> f a"
  shows "sorted_wrt (\<lambda>a b. f b \<le> f a) (sort_cmp cmp xs)"
  by (induction xs) (simp_all add: sort_cmp_def sorted_insort_cmp [OF assms])

lemma filter_insort_cmp:
  fixes f :: "'a \<Rightarrow> int"
  assumes "\<And>a b. cmp a b \<le> 0 \<longleftrightarrow> f b \<le> f a"
  shows "filter (\<lambda>r. f r = p) (insort_cmp cmp x ys) = filter (\<lambda>r. f r = p) (x # ys)"
  by (induction ys) (auto simp: assms)

lemma filter_sort_cmp:
  fixes f :: "'a \<Rightarrow> int"
  assumes "\<And>a b. cmp a b \<le> 0 \<longleftrightarrow> f b \<le> f a"
  shows "filter (\<lambda>r. f r = p) (sort_cmp cmp xs) = filter (\<lambda>r. f r = p) xs"
proof (induction xs)
  case Nil
  show ?case by (simp add: sort_cmp_def)
next
  case (Cons x xs)
  have "sort_cmp cmp (x # xs) = insort_cmp cmp x (sort_cmp cmp xs)"
    by (simp add: sort_cmp_def)
  then show ?case
    using Cons.IH by (simp add: filter_insort_cmp [OF assms])
qed

lemma length_insort_cmp: "length (insort_cmp cmp x ys) = Suc (length ys)"
  by (induction ys) auto

lemma length_sort_cmp: "length (sort_cmp cmp xs) = length xs"
  by (induction xs) (simp_all add: sort_cmp_def length_insort_cmp)

lemma compare_by_profit:
  "js_sub (profit b) (profit a) \<le> 0 \<longleftrightarrow> profit b \<le> profit a"
  by (rule js_sub_nonpos_iff)

text \<open>
  Claim C2. The returned sequence is in descending order of profit (each record's profit
  is at least its successor's), and for every profit value the records with that profit
  appear in the order in which the loop met their items in the catalog.
\<close>

theorem calculateProfits_sorted_stable:
  "(\<forall>i. Suc i < length (calculateProfits items prices) \<longrightarrow>
        profit (calculateProfits items prices ! Suc i) \<le>
        profit (calculateProfits items prices ! i)) \<and>
   (\<forall>p. filter (\<lambda>r. profit r = p) (calculateProfits items prices) =
        filter (\<lambda>r. profit r = p)
          (concat (map (loop_body prices (NATURE_RUNE_PRICE prices) []) items)))"
proof
  have "sorted_wrt (\<lambda>a b. profit b \<le> profit a) (calculateProfits items prices)"
    unfolding calculateProfits_def Let_def
    by (rule sorted_sort_cmp) (rule compare_by_profit)
  then show "\<forall>i. Suc i < length (calculateProfits items prices) \<longrightarrow>
        profit (calculateProfits items prices ! Suc i) \<le>
        profit (calculateProfits items prices ! i)"
    by (simp add: sorted_wrt_iff_nth_less)
next
  have "filter (\<lambda>r. profit r = p) (calculateProfits items prices) =
        filter (\<lambda>r. profit r = p)
          (concat (map (loop_body prices (NATURE_RUNE_PRICE prices) []) items))" for p
    unfolding calculateProfits_def Let_def
    by (subst filter_sort_cmp [where f = profit, OF compare_by_profit])
      (simp add: foldl_loop_body)
  then show "\<forall>p. filter (\<lambda>r. profit r = p) (calculateProfits items prices) =
        filter (\<lambda>r. profit r = p)
          (concat (map (loop_body prices (NATURE_RUNE_PRICE prices) []) items))"
    by blast
qed

lemma example_profits:
  "profit gadget_record = 880" "profit widget_record = 380" "profit gizmo_record = 380"
  "alch_id gadget_record = 2" "alch_id widget_record = 1" "alch_id gizmo_record = 3"
  by (simp_all add: gadget_record_def widget_record_def gizmo_record_def)

theorem calculateProfits_sorted_stable_witness:
  "Suc 1 < length (calculateProfits example_items example_prices) \<and>
   profit (calculateProfits example_items example_prices ! Suc 1) \<le>
     profit (calculateProfits example_items example_prices ! 1) \<and>
   map alch_id (filter (\<lambda>r. profit r = 380) (calculateProfits example_items example_prices)) =
     [1, 3]"
proof -
  have len: "Suc 1 < length (calculateProfits example_items example_prices)"
    by (simp add: example_run)
  have ids: "map alch_id
      (filter (\<lambda>r. profit r = 380) (calculateProfits example_items example_prices)) = [1, 3]"
    by (simp add: example_run example_profits)
  from calculateProfits_sorted_stable [of example_items example_prices] len
  have "profit (calculateProfits example_items example_prices ! Suc 1) \<le>
     profit (calculateProfits example_items example_prices ! 1)"
    by blast
  with len ids show ?thesis by blast
qed




section \<open>Properties of formatPrice\<close>

lemma length_nat_toString_pos: "0 < length (nat_toString n)"
  by (subst nat_toString.simps) simp

lemma nat_toString_digit: "n < 10 \<Longrightarrow> nat_toString n = [digit_char n]"
  by (subst nat_toString.simps) simp

lemma nat_toString_step:
  "10 \<le> n \<Longrightarrow> nat_toString n = nat_toString (n div 10) @ [digit_char (n mod 10)]"
  by (subst nat_toString.simps) simp

lemma nat_toString_two_digits:
  assumes "10 \<le> n" "n < 100"
  shows "nat_toString n = [digit_char (n div 10), digit_char (n mod 10)]"
proof -
  from assms have "n div 10 < 10" by simp
  then show ?thesis
    using assms(1) by (simp add: nat_toString_step nat_toString_digit)
qed

lemma nat_toString_hundreds:
  assumes "100 \<le> n"
  shows "nat_toString n =
           nat_toString (n div 100) @ [digit_char (n div 10 mod 10), digit_char (n mod 10)]"
proof -
  from assms have "10 \<le> n" "10 \<le> n div 10" by simp_all
  then have "nat_toString n =
      (nat_toString (n div 10 div 10) @ [digit_char (n div 10 mod 10)]) @ [digit_char (n mod 10)]"
    by (simp add: nat_toString_step)
  then show ?thesis
    by (simp add: div_mult2_eq [symmetric])
qed

lemma digit_char_0: "digit_char 0 = CHR ''0''"
  by (simp add: digit_char_def)

lemma nat_toString_not_Nil: "nat_toString n \<noteq> []"
  using length_nat_toString_pos [of n] by simp

lemma length_nat_toString_le: "0 < k \<Longrightarrow> n < 10 ^ k \<Longrightarrow> length (nat_toString n) \<le> k"
proof (induction k arbitrary: n)
  case 0
  then show ?case by simp
next
  case (Suc k)
  show ?case
  proof (cases "n < 10")
    case True
    then show ?thesis by (simp add: nat_toString_digit)
  next
    case False
    then have k: "0 < k"
      using Suc.prems(2) by (cases k) simp_all
    from Suc.prems(2) have "n div 10 < 10 ^ k"
      by (simp add: less_mult_imp_div_less mult.commute)
    from Suc.IH [OF k this] False show ?thesis
      by (simp add: nat_toString_step)
  qed
qed

lemma toString_safe:
  assumes "0 \<le> n" "n < 2 ^ 53"
  shows "toString n = nat_toString (nat n)"
proof -
  from assms have "nat n < 10 ^ 21" by simp
  then have "length (nat_toString (nat n)) \<le> 21"
    by (intro length_nat_toString_le) simp_all
  with assms show ?thesis
    by (simp add: toString_def positive_toString_def digits_and_zeros_def)
qed

lemma toFixed_nonneg:
  assumes "0 \<le> significand x" "double_less x (10 ^ 21)"
  shows "toFixed x f = insert_point (nat_toString (toFixed_n x f)) f"
proof -
  from assms(1) have "Double \<bar>significand x\<bar> (exponent x) = x"
    by (cases x) simp
  with assms show ?thesis
    by (simp add: toFixed_def Let_def nat_toString_digit digit_char_0)
qed

lemma toFixed_large:
  assumes "0 \<le> significand x" "\<not> double_less x (10 ^ 21)"
  shows "toFixed x f = positive_toString (Math_floor x)"
proof -
  from assms(1) have "Double \<bar>significand x\<bar> (exponent x) = x"
    by (cases x) simp
  with assms show ?thesis
    by (simp add: toFixed_def Let_def)
qed

lemma insert_point_short:
  "0 < f \<Longrightarrow> length m \<le> f \<Longrightarrow>
   insert_point m f = ''0.'' @ replicate (f - length m) CHR ''0'' @ m"
  by (simp add: insert_point_def Let_def Suc_diff_le)

lemma insert_point_long:
  "0 < f \<Longrightarrow> f < length m \<Longrightarrow>
   insert_point m f = take (length m - f) m @ ''.'' @ drop (length m - f) m"
  by (simp add: insert_point_def Let_def)

lemma insert_point_two:
  "insert_point (nat_toString n) 2 =
     nat_toString (n div 100) @ ''.'' @ [digit_char (n div 10 mod 10), digit_char (n mod 10)]"
proof -
  consider "n < 10" | "10 \<le> n" "n < 100" | "100 \<le> n"
    by linarith
  then show ?thesis
  proof cases
    case 1
    then have "nat_toString n = [digit_char n]" by (rule nat_toString_digit)
    with 1 show ?thesis
      by (simp add: insert_point_short nat_toString_digit digit_char_0 numeral_2_eq_2)
  next
    case 2
    then have "nat_toString n = [digit_char (n div 10), digit_char (n mod 10)]"
      by (rule nat_toString_two_digits)
    with 2 show ?thesis
      by (simp add: insert_point_short nat_toString_digit digit_char_0)
  next
    case 3
    then have m: "nat_toString n =
        nat_toString (n div 100) @ [digit_char (n div 10 mod 10), digit_char (n mod 10)]"
      by (rule nat_toString_hundreds)
    have "2 < length (nat_toString n)"
      using length_nat_toString_pos [of "n div 100"] by (simp add: m)
    then have "insert_point (nat_toString n) 2 =
        take (length (nat_toString n) - 2) (nat_toString n) @ ''.'' @
        drop (length (nat_toString n) - 2) (nat_toString n)"
      by (intro insert_point_long) simp_all
    also have "\<dots> = nat_toString (n div 100) @ ''.'' @
        [digit_char (n div 10 mod 10), digit_char (n mod 10)]"
      by (simp add: m)
    finally show ?thesis .
  qed
qed

lemma insert_point_one:
  "insert_point (nat_toString n) (Suc 0) =
     nat_toString (n div 10) @ ''.'' @ [digit_char (n mod 10)]"
proof (cases "n < 10")
  case True
  then have "nat_toString n = [digit_char n]" by (rule nat_toString_digit)
  with True show ?thesis
    by (simp add: insert_point_short nat_toString_digit digit_char_0)
next
  case False
  then have m: "nat_toString n = nat_toString (n div 10) @ [digit_char (n mod 10)]"
    by (intro nat_toString_step) simp
  have "Suc 0 < length (nat_toString n)"
    using length_nat_toString_pos [of "n div 10"] by (simp add: m)
  then have "insert_point (nat_toString n) (Suc 0) =
      take (length (nat_toString n) - Suc 0) (nat_toString n) @ ''.'' @
      drop (length (nat_toString n) - Suc 0) (nat_toString n)"
    by (intro insert_point_long) simp_all
  also have "\<dots> = nat_toString (n div 10) @ ''.'' @ [digit_char (n mod 10)]"
    by (simp add: m)
  finally show ?thesis .
qed
lemma significand_nearest_double:
  "0 < a \<Longrightarrow> 0 < b \<Longrightarrow> 0 \<le> significand (nearest_double a b)"
  by (simp add: nearest_double_def Let_def round_half_even_nonneg)

lemma significand_js_div:
  "0 \<le> a \<Longrightarrow> 0 < b \<Longrightarrow> 0 \<le> significand (js_div a b)"
  by (simp add: js_div_def significand_nearest_double)

text \<open>
  The quotient is rounded twice, to a double and then to \<open>f\<close> decimals. For a positive
  safe integer \<open>a\<close> and a divisor \<open>D * 10 ^ f\<close> with \<open>D\<close> even, the second
  rounding still lands on an integer nearest to the exact \<open>a / D\<close>: the double is within
  half a unit in the last place of the quotient, which is less than the distance
  \<open>1 / (D * 10 ^ f)\<close> between the quotient and the next half-way point.
\<close>
lemma round_half_even_error:
  assumes "0 < b"
  shows "\<bar>2 * (round_half_even a b * b - a)\<bar> \<le> b"
proof -
  define q r where "q = a div b" and "r = a mod b"
  have a: "a = q * b + r" by (simp add: q_def r_def)
  have r: "0 \<le> r" "r < b" using assms by (simp_all add: r_def)
  have "round_half_even a b = (if 2 * r < b then q else if b < 2 * r then q + 1
      else if even q then q else q + 1)"
    by (simp add: round_half_even_def q_def r_def Let_def)
  then consider "round_half_even a b = q" "2 * r \<le> b"
    | "round_half_even a b = q + 1" "b \<le> 2 * r"
    by (auto split: if_splits)
  then show ?thesis
  proof cases
    case 1
    then have "round_half_even a b * b - a = - r" by (simp add: a)
    with 1 r show ?thesis by simp
  next
    case 2
    then have "round_half_even a b * b - a = b - r" by (simp add: a algebra_simps)
    with 2 r show ?thesis by simp
  qed
qed

lemma binade_lower:
  assumes "0 < a" "0 < b"
  shows "b * 2 ^ nat (binade a b) \<le> a * 2 ^ nat (- binade a b)"
proof -
  define la lb where "la = floor_log2 (nat a)" and "lb = floor_log2 (nat b)"
  define k where "k = int la - int lb"
  from floor_log2_bounds [of "nat a"] assms(1)
  have a: "2 ^ la \<le> a"
    by (simp add: la_def le_nat_iff)
  from floor_log2_bounds [of "nat b"] assms(2)
  have b: "b < 2 * 2 ^ lb"
    by (simp add: lb_def nat_less_iff)
  have bin: "binade a b = (if b * 2 ^ nat k \<le> a * 2 ^ nat (- k) then k else k - 1)"
    by (simp add: binade_def k_def la_def lb_def Let_def)
  show ?thesis
  proof (cases "b * 2 ^ nat k \<le> a * 2 ^ nat (- k)")
    case True
    with bin show ?thesis by simp
  next
    case False
    with bin have eq: "binade a b = k - 1" by simp
    show ?thesis
    proof (cases "1 \<le> k")
      case True
      then have la: "la = Suc (nat (k - 1) + lb)"
        by (simp add: k_def)
      have "b * 2 ^ nat (k - 1) \<le> 2 * 2 ^ lb * 2 ^ nat (k - 1)"
        using b by (intro mult_right_mono) simp_all
      also have "\<dots> = 2 ^ la"
        by (simp add: la power_add)
      also have "\<dots> \<le> a" by (rule a)
      finally show ?thesis
        using True by (simp add: eq)
    next
      case False
      then have lb: "Suc lb = la + nat (1 - k)"
        by (simp add: k_def)
      have "b \<le> 2 ^ Suc lb" using b by simp
      also have "\<dots> = 2 ^ la * 2 ^ nat (1 - k)"
        by (simp only: lb power_add)
      also have "\<dots> \<le> a * 2 ^ nat (1 - k)"
        using a by (intro mult_right_mono) simp_all
      finally show ?thesis
        using False by (simp add: eq)
    qed
  qed
qed

lemma binade_small:
  assumes "0 < a" "a < 2 ^ 53" "2 \<le> b"
  shows "binade a b < 52"
proof (rule ccontr)
  assume "\<not> binade a b < 52"
  then have big: "52 \<le> binade a b" by simp
  then have "nat (- binade a b) = 0" by simp
  with binade_lower [of a b] assms have le: "b * 2 ^ nat (binade a b) \<le> a" by simp
  from big have "(2::int) ^ 52 \<le> 2 ^ nat (binade a b)"
    by (intro power_increasing) simp_all
  then have "2 * (2::int) ^ 52 \<le> b * 2 ^ nat (binade a b)"
    using assms(3) by (intro mult_mono) simp_all
  with le assms(2) show False by simp
qed

lemma scaled_lower:
  assumes "0 < a" "0 < b" "binade a b < 52"
  shows "b * 2 ^ 52 \<le> a * 2 ^ nat (52 - binade a b)"
proof (cases "0 \<le> binade a b")
  case True
  then have "nat (- binade a b) = 0" by simp
  with binade_lower [OF assms(1,2)] have le: "b * 2 ^ nat (binade a b) \<le> a" by simp
  from True assms(3) have "(52::nat) = nat (binade a b) + nat (52 - binade a b)" by simp
  then have "b * 2 ^ 52 = b * 2 ^ nat (binade a b) * 2 ^ nat (52 - binade a b)"
    by (simp only: power_add mult.assoc)
  also have "\<dots> \<le> a * 2 ^ nat (52 - binade a b)"
    using le by (intro mult_right_mono) simp_all
  finally show ?thesis .
next
  case False
  then have "nat (binade a b) = 0" by simp
  with binade_lower [OF assms(1,2)] have le: "b \<le> a * 2 ^ nat (- binade a b)" by simp
  from False have "nat (52 - binade a b) = nat (- binade a b) + 52" by simp
  then have eq: "a * 2 ^ nat (52 - binade a b) = a * 2 ^ nat (- binade a b) * 2 ^ 52"
    by (simp only: power_add mult.assoc)
  have "b * 2 ^ 52 \<le> a * 2 ^ nat (- binade a b) * 2 ^ 52"
    using le by (intro mult_right_mono) simp_all
  then show ?thesis by (simp only: eq)
qed

lemma toFixed_n_nearest:
  assumes a: "0 < a" "a < 2 ^ 53" and H: "0 < H" and D: "D = 2 * H" and b: "b = D * 10 ^ f"
  shows "\<bar>int (toFixed_n (js_div a b) f) * D - a\<bar> \<le> H"
proof -
  have Dpos: "0 < D" using H D by simp
  have "1 * 2 \<le> (10::int) ^ f * D"
    using H D by (intro mult_mono) simp_all
  then have b2: "2 \<le> b" by (simp add: b mult.commute)
  define e where "e = binade a b - 52"
  define k where "k = nat (- e)"
  define X :: int where "X = 2 ^ k"
  define m where "m = round_half_even (a * X) b"
  define N where "N = (2 * m * 10 ^ f + X) div (2 * X)"
  have e: "e < 0" using binade_small [OF a b2] by (simp add: e_def)
  have X: "0 < X" by (simp add: X_def)
  have jd: "js_div a b = Double m e"
    using a(1) e by (simp add: js_div_def nearest_double_def Let_def e_def m_def X_def k_def)
  have m: "0 \<le> m"
    using a(1) X b2 by (simp add: m_def round_half_even_nonneg)
  have N: "0 \<le> N"
    using m X by (simp add: N_def pos_imp_zdiv_nonneg_iff)
  have tn: "int (toFixed_n (js_div a b) f) = N"
    using e m N by (simp add: jd toFixed_n_def Let_def N_def X_def k_def)
  have F1: "N * (2 * X) \<le> 2 * m * 10 ^ f + X"
  proof -
    have "0 \<le> (2 * m * 10 ^ f + X) mod (2 * X)" using X by simp
    moreover have "2 * m * 10 ^ f + X =
        N * (2 * X) + (2 * m * 10 ^ f + X) mod (2 * X)"
      unfolding N_def by (rule div_mult_mod_eq [symmetric])
    ultimately show ?thesis by linarith
  qed
  have F2: "2 * m * 10 ^ f + X < (N + 1) * (2 * X)"
  proof -
    have "(2 * m * 10 ^ f + X) mod (2 * X) < 2 * X" using X by simp
    moreover have "2 * m * 10 ^ f + X =
        N * (2 * X) + (2 * m * 10 ^ f + X) mod (2 * X)"
      unfolding N_def by (rule div_mult_mod_eq [symmetric])
    ultimately show ?thesis by (simp add: algebra_simps)
  qed
  have R: "\<bar>2 * (m * b - a * X)\<bar> \<le> b"
    unfolding m_def using b2 by (intro round_half_even_error) simp
  have B: "b < 2 * X"
  proof -
    have "k = nat (52 - binade a b)" by (simp add: k_def e_def)
    with scaled_lower [of a b] a(1) b2 e have "b * 2 ^ 52 \<le> a * X"
      by (simp add: X_def e_def)
    also have "a * X < 2 ^ 53 * X"
      using a(2) X by (intro mult_strict_right_mono)
    finally have "b * 2 ^ 52 < (2 * X) * 2 ^ 52" by simp
    then show ?thesis by simp
  qed
  define rX rD x10 y t :: real where "rX = of_int X" and "rD = of_int D"
    and "x10 = of_int m * 10 ^ f / rX" and "y = of_int a / rD"
    and "t = 10 ^ f / (2 * rX)"
  have rX: "0 < rX" and rD: "0 < rD" using X Dpos by (simp_all add: rX_def rD_def)
  have i: "of_int N \<le> x10 + 1 / 2"
  proof -
    from F1 have "real_of_int (N * (2 * X)) \<le> real_of_int (2 * m * 10 ^ f + X)"
      by (simp only: of_int_le_iff)
    then have "of_int N * (2 * rX) \<le> 2 * of_int m * 10 ^ f + rX"
      by (simp add: rX_def)
    then show ?thesis
      using rX by (simp add: x10_def field_simps)
  qed
  have ii: "x10 + 1 / 2 < of_int N + 1"
  proof -
    from F2 have "real_of_int (2 * m * 10 ^ f + X) < real_of_int ((N + 1) * (2 * X))"
      by (simp only: of_int_less_iff)
    then have "2 * of_int m * 10 ^ f + rX < (of_int N + 1) * (2 * rX)"
      by (simp add: rX_def)
    then show ?thesis
      using rX by (simp add: x10_def field_simps)
  qed
  have iii: "\<bar>x10 - y\<bar> \<le> t"
  proof -
    define U V C where "U = of_int m * (rD * 10 ^ f)" and "V = of_int a * rX"
      and "C = rD * 10 ^ f"
    from R have "real_of_int \<bar>2 * (m * b - a * X)\<bar> \<le> real_of_int b"
      by (simp only: of_int_le_iff)
    then have "\<bar>2 * (U - V)\<bar> \<le> C"
      by (simp add: b rX_def rD_def U_def V_def C_def)
    then have "2 * \<bar>U - V\<bar> \<le> C"
      by (simp only: abs_mult abs_numeral)
    then have "\<bar>U - V\<bar> \<le> C / 2"
      by simp
    then have "\<bar>U - V\<bar> / (rX * rD) \<le> (C / 2) / (rX * rD)"
      using rX rD by (intro divide_right_mono) simp_all
    moreover have "\<bar>U - V\<bar> / (rX * rD) = \<bar>x10 - y\<bar>"
    proof -
      have "x10 - y = (U - V) / (rX * rD)"
        using rX rD by (simp add: x10_def y_def U_def V_def field_simps)
      then show ?thesis
        using rX rD by (simp add: abs_mult)
    qed
    moreover have "(C / 2) / (rX * rD) = t"
      using rX rD by (simp add: t_def C_def)
    ultimately show ?thesis by simp
  qed
  then have iii': "x10 - y \<le> t" "y - x10 \<le> t"
    by (simp_all add: abs_le_iff)
  have iv: "t * rD < 1"
  proof -
    from B have "real_of_int b < real_of_int (2 * X)"
      by (simp only: of_int_less_iff)
    then have "rD * 10 ^ f < 2 * rX" by (simp add: b rX_def rD_def)
    then show ?thesis
      using rX by (simp add: t_def field_simps)
  qed
  have yD: "rD * y = of_int a" using rD by (simp add: y_def)
  have half: "rD / 2 = of_int H" by (simp add: rD_def D)
  have up: "real_of_int (N * D - a) < of_int H + 1"
  proof -
    from i iii'(1) have "of_int N - y \<le> 1 / 2 + t" by linarith
    then have "(of_int N - y) * rD \<le> (1 / 2 + t) * rD"
      using rD by (intro mult_right_mono) simp_all
    then have "of_int N * rD - of_int a \<le> rD / 2 + t * rD"
      by (simp add: algebra_simps yD)
    with iv half show ?thesis by (simp add: rD_def)
  qed
  have down: "real_of_int (a - N * D) < of_int H + 1"
  proof -
    from ii iii'(2) have "y - of_int N \<le> 1 / 2 + t" by linarith
    then have "(y - of_int N) * rD \<le> (1 / 2 + t) * rD"
      using rD by (intro mult_right_mono) simp_all
    then have "of_int a - of_int N * rD \<le> rD / 2 + t * rD"
      by (simp add: algebra_simps yD)
    with iv half show ?thesis by (simp add: rD_def)
  qed
  from up have "N * D - a < H + 1" by linarith
  moreover from down have "a - N * D < H + 1" by linarith
  ultimately show ?thesis by (simp add: tn abs_le_iff)
qed

text \<open>
  The integer formulas of the model agree with the rational value of a double, and
  \<open>nearest_double\<close> yields a 53-bit significand whose value is within half a unit in
  the last place of the quotient.
\<close>

lemma double_value_nonneg_exponent:
  "0 \<le> exponent x \<Longrightarrow> double_value x = of_int (significand x * 2 ^ nat (exponent x))"
  by (simp add: double_value_def power_int_def)

lemma double_value_neg_exponent:
  assumes "exponent x < 0"
  shows "double_value x = of_int (significand x) / of_int (2 ^ nat (- exponent x))"
proof -
  define k where "k = nat (- exponent x)"
  from assms have e: "exponent x = - int k" by (simp add: k_def)
  have "(2::rat) powi exponent x = inverse (2 ^ k)"
    by (simp only: e power_int_minus power_int_of_nat)
  then have "double_value x = of_int (significand x) * inverse (2 ^ k)"
    by (simp only: double_value_def)
  also have "\<dots> = of_int (significand x) / of_int (2 ^ k)"
    by (simp only: divide_inverse of_int_power of_int_numeral)
  finally show ?thesis by (simp only: k_def)
qed

lemma Math_floor_eq: "Math_floor x = \<lfloor>double_value x\<rfloor>"
proof (cases "0 \<le> exponent x")
  case True
  then show ?thesis
    by (simp only: Math_floor_def double_value_nonneg_exponent if_True floor_of_int)
next
  case False
  then have neg: "exponent x < 0" by simp
  show ?thesis
    using False
    by (simp only: Math_floor_def double_value_neg_exponent [OF neg] if_False
        floor_divide_of_int_eq)
qed

lemma double_less_iff: "double_less x k \<longleftrightarrow> double_value x < of_int k"
proof (cases "0 \<le> exponent x")
  case True
  then show ?thesis
    by (simp only: double_less_def double_value_nonneg_exponent if_True of_int_less_iff)
next
  case False
  then have neg: "exponent x < 0" by simp
  have pos: "(0::rat) < of_int (2 ^ nat (- exponent x))" by simp
  have "double_value x < of_int k \<longleftrightarrow>
      (of_int (significand x) :: rat) < of_int k * of_int (2 ^ nat (- exponent x))"
    unfolding double_value_neg_exponent [OF neg]
    using pos by (rule pos_divide_less_eq)
  also have "\<dots> \<longleftrightarrow> significand x < k * 2 ^ nat (- exponent x)"
    by (simp only: of_int_mult [symmetric] of_int_less_iff)
  finally show ?thesis
    using False by (simp only: double_less_def if_False)
qed

lemma toFixed_n_eq:
  "toFixed_n x f = nat \<lfloor>\<bar>double_value x\<bar> * 10 ^ f + 1 / 2\<rfloor>"
proof (cases "0 \<le> exponent x")
  case True
  have "\<bar>double_value x\<bar> * 10 ^ f + 1 / 2 =
      of_int (\<bar>significand x\<bar> * 2 ^ nat (exponent x) * 10 ^ f) + 1 / 2"
    using True by (simp add: double_value_nonneg_exponent abs_mult)
  also have "\<lfloor>\<dots>\<rfloor> = \<bar>significand x\<bar> * 2 ^ nat (exponent x) * 10 ^ f"
    by (rule floor_unique) simp_all
  finally show ?thesis
    using True by (simp add: toFixed_n_def Let_def)
next
  case False
  then have neg: "exponent x < 0" by simp
  define X :: int where "X = 2 ^ nat (- exponent x)"
  have X: "0 < X" by (simp add: X_def)
  have "\<bar>double_value x\<bar> * 10 ^ f + 1 / 2 =
      of_int (2 * \<bar>significand x\<bar> * 10 ^ f + X) / of_int (2 * X)"
    using X by (simp add: double_value_neg_exponent [OF neg] X_def [symmetric] field_simps abs_mult)
  also have "\<lfloor>\<dots>\<rfloor> = (2 * \<bar>significand x\<bar> * 10 ^ f + X) div (2 * X)"
    by (rule floor_divide_of_int_eq)
  finally show ?thesis
    using False by (simp add: toFixed_n_def Let_def X_def)
qed

lemma binade_upper:
  assumes "0 < a" "0 < b"
  shows "a * 2 ^ nat (- (binade a b + 1)) < b * 2 ^ nat (binade a b + 1)"
proof -
  define la lb where "la = floor_log2 (nat a)" and "lb = floor_log2 (nat b)"
  define k where "k = int la - int lb"
  from floor_log2_bounds [of "nat a"] assms(1)
  have a: "a < 2 * 2 ^ la"
    by (simp add: la_def nat_less_iff)
  from floor_log2_bounds [of "nat b"] assms(2)
  have b: "2 ^ lb \<le> b"
    by (simp add: lb_def le_nat_iff)
  have bin: "binade a b = (if b * 2 ^ nat k \<le> a * 2 ^ nat (- k) then k else k - 1)"
    by (simp add: binade_def k_def la_def lb_def Let_def)
  show ?thesis
  proof (cases "b * 2 ^ nat k \<le> a * 2 ^ nat (- k)")
    case False
    with bin show ?thesis by simp
  next
    case True
    with bin have eq: "binade a b = k" by simp
    show ?thesis
    proof (cases "0 \<le> k + 1")
      case True
      then have la: "Suc la = lb + nat (k + 1)"
        by (simp add: k_def)
      have "a < 2 ^ Suc la" using a by simp
      also have "\<dots> = 2 ^ lb * 2 ^ nat (k + 1)"
        by (simp only: la power_add)
      also have "\<dots> \<le> b * 2 ^ nat (k + 1)"
        using b by (intro mult_right_mono) simp_all
      finally show ?thesis
        using True by (simp add: eq)
    next
      case False
      then have lb: "lb = Suc (la + nat (- (k + 1)))"
        by (simp add: k_def)
      have "a * 2 ^ nat (- (k + 1)) < 2 * 2 ^ la * 2 ^ nat (- (k + 1))"
        using a by (intro mult_strict_right_mono) simp_all
      also have "\<dots> = 2 ^ lb"
        by (simp add: lb power_add)
      also have "\<dots> \<le> b" by (rule b)
      finally show ?thesis
        using False by (simp add: eq)
    qed
  qed
qed

lemma scaled_upper:
  assumes "0 < a" "0 < b" "binade a b < 52"
  shows "a * 2 ^ nat (52 - binade a b) < b * 2 ^ 53"
proof (cases "0 \<le> binade a b + 1")
  case True
  then have "nat (- (binade a b + 1)) = 0" by simp
  with binade_upper [OF assms(1,2)] have lt: "a < b * 2 ^ nat (binade a b + 1)" by simp
  from True assms(3) have "(53::nat) = nat (binade a b + 1) + nat (52 - binade a b)" by simp
  then have eq: "b * 2 ^ 53 = b * 2 ^ nat (binade a b + 1) * 2 ^ nat (52 - binade a b)"
    by (simp only: power_add mult.assoc)
  have "a * 2 ^ nat (52 - binade a b) <
      b * 2 ^ nat (binade a b + 1) * 2 ^ nat (52 - binade a b)"
    using lt by (intro mult_strict_right_mono) simp_all
  then show ?thesis by (simp only: eq)
next
  case False
  then have "nat (binade a b + 1) = 0" by simp
  with binade_upper [OF assms(1,2)] have lt: "a * 2 ^ nat (- (binade a b + 1)) < b" by simp
  from False have "nat (52 - binade a b) = nat (- (binade a b + 1)) + 53" by simp
  then have eq: "a * 2 ^ nat (52 - binade a b) = a * 2 ^ nat (- (binade a b + 1)) * 2 ^ 53"
    by (simp only: power_add mult.assoc)
  have "a * 2 ^ nat (- (binade a b + 1)) * 2 ^ 53 < b * 2 ^ 53"
    using lt by (intro mult_strict_right_mono) simp_all
  then show ?thesis by (simp only: eq)
qed

lemma nearest_double_is_nearest:
  assumes "0 < a" "0 < b" "binade a b < 52"
  shows "2 ^ 52 \<le> significand (nearest_double a b) \<and>
         significand (nearest_double a b) \<le> 2 ^ 53 \<and>
         \<bar>double_value (nearest_double a b) - of_int a / of_int b\<bar> \<le>
           2 powi exponent (nearest_double a b) / 2"
proof -
  define e where "e = binade a b - 52"
  define k where "k = nat (- e)"
  define X :: int where "X = 2 ^ k"
  define m where "m = round_half_even (a * X) b"
  have e: "e < 0" using assms(3) by (simp add: e_def)
  have X: "0 < X" by (simp add: X_def)
  have k: "k = nat (52 - binade a b)" by (simp add: k_def e_def)
  have d: "nearest_double a b = Double m e"
    using e by (simp add: nearest_double_def Let_def e_def m_def X_def k_def)
  have R: "\<bar>2 * (m * b - a * X)\<bar> \<le> b"
    unfolding m_def using assms(2) by (rule round_half_even_error)
  then have R': "2 * (a * X) - b \<le> 2 * (m * b)" "2 * (m * b) \<le> 2 * (a * X) + b"
    by (simp_all add: abs_le_iff algebra_simps)
  from scaled_lower [OF assms] have lo: "b * 2 ^ 52 \<le> a * X"
    by (simp add: X_def k)
  from scaled_upper [OF assms] have hi: "a * X < b * 2 ^ 53"
    by (simp add: X_def k)
  have m_lo: "2 ^ 52 \<le> m"
  proof -
    from R'(1) lo have "b * (2 ^ 53 - 1) \<le> b * (2 * m)"
      by (simp add: algebra_simps)
    with assms(2) have "2 ^ 53 - 1 \<le> 2 * m"
      by (simp only: mult_le_cancel_left_pos)
    then show ?thesis by simp
  qed
  have m_hi: "m \<le> 2 ^ 53"
  proof -
    from R'(2) hi have "b * (2 * m) < b * (2 * 2 ^ 53 + 1)"
      by (simp add: algebra_simps)
    with assms(2) have "2 * m < 2 * 2 ^ 53 + 1"
      by (simp only: mult_less_cancel_left_pos)
    then show ?thesis by simp
  qed
  define rX rb :: rat where "rX = of_int X" and "rb = of_int b"
  have rX: "0 < rX" and rb: "0 < rb" using X assms(2) by (simp_all add: rX_def rb_def)
  have dv: "double_value (Double m e) = of_int m / rX"
    using e double_value_neg_exponent [of "Double m e"] by (simp add: rX_def X_def k_def)
  have pw: "(2::rat) powi e = 1 / rX"
  proof -
    from e have "e = - int k" by (simp add: k_def)
    then have "(2::rat) powi e = inverse (2 ^ k)"
      by (simp only: power_int_minus power_int_of_nat)
    then show ?thesis by (simp add: rX_def X_def divide_inverse)
  qed
  have err: "\<bar>of_int m / rX - of_int a / rb\<bar> \<le> 1 / rX / 2"
  proof -
    define U where "U = of_int m * rb - of_int a * rX"
    from R have "rat_of_int \<bar>2 * (m * b - a * X)\<bar> \<le> rat_of_int b"
      by (simp only: of_int_le_iff)
    then have "\<bar>2 * U\<bar> \<le> rb"
      by (simp add: U_def rX_def rb_def)
    then have "2 * \<bar>U\<bar> \<le> rb"
      by (simp only: abs_mult abs_numeral)
    then have "\<bar>U\<bar> \<le> rb / 2"
      by simp
    then have "\<bar>U\<bar> / (rX * rb) \<le> (rb / 2) / (rX * rb)"
      using rX rb by (intro divide_right_mono) simp_all
    moreover have "\<bar>U\<bar> / (rX * rb) = \<bar>of_int m / rX - of_int a / rb\<bar>"
    proof -
      have "of_int m / rX - of_int a / rb = U / (rX * rb)"
        using rX rb by (simp add: U_def field_simps)
      then show ?thesis
        using rX rb by (simp add: abs_mult)
    qed
    moreover have "(rb / 2) / (rX * rb) = 1 / rX / 2"
      using rX rb by simp
    ultimately show ?thesis by simp
  qed
  from m_lo m_hi err show ?thesis
    by (simp add: d dv pw rb_def)
qed

lemma js_div_safe:
  assumes "0 < a" "a < 2 ^ 53" "2 \<le> b"
  shows "double_less (js_div a b) (10 ^ 21)"
proof -
  have bin: "binade a b < 52"
    using assms by (rule binade_small)
  have b: "0 < b" using assms(3) by simp
  from nearest_double_is_nearest [OF assms(1) b bin]
  have m: "significand (nearest_double a b) \<le> 2 ^ 53" by simp
  have e: "exponent (nearest_double a b) < 0"
    using bin by (simp add: nearest_double_def Let_def)
  have "(1::int) \<le> 2 ^ nat (- exponent (nearest_double a b))" by simp
  then have "(10::int) ^ 21 * 1 \<le> 10 ^ 21 * 2 ^ nat (- exponent (nearest_double a b))"
    by (intro mult_left_mono) simp_all
  moreover have "(2::int) ^ 53 < 10 ^ 21 * 1" by simp
  ultimately have "significand (nearest_double a b) <
      10 ^ 21 * 2 ^ nat (- exponent (nearest_double a b))"
    using m by linarith
  with e assms(1) show ?thesis
    by (simp add: js_div_def double_less_def)
qed

lemmas formatPrice_eval = formatPrice_def toFixed_def toFixed_n_def insert_point_def js_div_def
  nearest_double_def binade_def floor_log2_eval round_half_even_def toString_eval
  double_less_def Math_floor_def Let_def

lemma formatPrice_examples:
  "formatPrice 1500 = ''1.5K''"
  "formatPrice 2300000 = ''2.30M''"
  "formatPrice 999 = ''999''"
  "formatPrice 1000000000 = ''1.00B''"
  by (simp_all add: formatPrice_eval split del: if_split)

lemmas nat_toString_Suc_eval = nat_toString.simps [of "Suc n" for n]

text \<open>
  Claim C7, as stated, fails from about \<open>10 ^ 30\<close> on. The number that the literal
  \<open>1e30\<close> denotes is at least \<open>10 ^ 9\<close>; its quotient by \<open>10 ^ 9\<close> is the double
  \<open>10 ^ 21\<close>, on which \<open>toFixed\<close> gives the result of \<open>toString\<close>: the text is
  1e+21B, with an exponent and without decimals.
\<close>

theorem formatPrice_exponent_counterexample:
  "(1000000000::int) \<le> 1000000000000000019884624838656 \<and>
   double_round 1000000000000000019884624838656 = 1000000000000000019884624838656 \<and>
   formatPrice 1000000000000000019884624838656 = ''1e+21B'' \<and>
   CHR ''.'' \<notin> set (formatPrice 1000000000000000019884624838656)"
proof -
  have "formatPrice 1000000000000000019884624838656 = ''1e+21B''"
    by (simp add: formatPrice_eval double_round_eval nat_toString_Suc_eval
        split del: if_split)
  moreover have "double_round 1000000000000000019884624838656 =
      1000000000000000019884624838656"
    by (simp add: double_round_eval split del: if_split)
  ultimately show ?thesis by simp
qed

text \<open>
  Claim C7, amended. For a non-negative integer \<open>n\<close>, \<open>formatPrice\<close> renders: from
  \<open>10 ^ 9\<close> on, the quotient \<open>n / 10 ^ 9\<close> with two decimals followed by B as long as
  the quotient (a double) is below \<open>10 ^ 21\<close>, and the quotient as \<open>toString\<close> prints
  it, followed by B, from there on; from \<open>10 ^ 6\<close> on, \<open>n / 10 ^ 6\<close> with two decimals
  followed by M; from \<open>10 ^ 3\<close> on, \<open>n / 10 ^ 3\<close> with one decimal followed by K; below
  that the digits of \<open>n\<close>. "With two decimals" is: the digits of a number \<open>N\<close> of
  hundredths with a point before the last two, where, for \<open>n\<close> below \<open>2 ^ 53\<close>, the
  quotient is below \<open>10 ^ 21\<close> and \<open>N\<close> is an integer nearest to the exact quotient
  times 100. In particular 1500 gives 1.5K, 2300000 gives 2.30M, 999 gives 999 and
  1000000000 gives 1.00B.
\<close>

theorem formatPrice_rendering:
  assumes "0 \<le> n"
  shows
    "(1000000000 \<le> n \<longrightarrow>
        (let q = js_div n 1000000000; N = toFixed_n q 2
         in (double_less q (10 ^ 21) \<longrightarrow>
               formatPrice n =
                 nat_toString (N div 100) @ ''.'' @
                   [digit_char (N div 10 mod 10), digit_char (N mod 10)] @ ''B'') \<and>
            (\<not> double_less q (10 ^ 21) \<longrightarrow>
               formatPrice n = positive_toString (Math_floor q) @ ''B'') \<and>
            (n < 2 ^ 53 \<longrightarrow>
               double_less q (10 ^ 21) \<and> \<bar>int N * 10000000 - n\<bar> \<le> 5000000))) \<and>
     (1000000 \<le> n \<and> n < 1000000000 \<longrightarrow>
        (let N = toFixed_n (js_div n 1000000) 2
         in formatPrice n =
              nat_toString (N div 100) @ ''.'' @
                [digit_char (N div 10 mod 10), digit_char (N mod 10)] @ ''M'' \<and>
            \<bar>int N * 10000 - n\<bar> \<le> 5000)) \<and>
     (1000 \<le> n \<and> n < 1000000 \<longrightarrow>
        (let N = toFixed_n (js_div n 1000) 1
         in formatPrice n =
              nat_toString (N div 10) @ ''.'' @ [digit_char (N mod 10)] @ ''K'' \<and>
            \<bar>int N * 100 - n\<bar> \<le> 50)) \<and>
     (n < 1000 \<longrightarrow> formatPrice n = nat_toString (nat n)) \<and>
     formatPrice 1500 = ''1.5K'' \<and> formatPrice 2300000 = ''2.30M'' \<and>
     formatPrice 999 = ''999'' \<and> formatPrice 1000000000 = ''1.00B''"
proof -
  have two: "toFixed (js_div n d) 2 =
          nat_toString (toFixed_n (js_div n d) 2 div 100) @ ''.'' @
            [digit_char (toFixed_n (js_div n d) 2 div 10 mod 10),
             digit_char (toFixed_n (js_div n d) 2 mod 10)]"
    if "0 < d" "double_less (js_div n d) (10 ^ 21)" for d
    using assms that by (simp add: toFixed_nonneg significand_js_div insert_point_two)
  have one: "toFixed (js_div n d) 1 =
          nat_toString (toFixed_n (js_div n d) 1 div 10) @ ''.'' @
            [digit_char (toFixed_n (js_div n d) 1 mod 10)]"
    if "0 < d" "double_less (js_div n d) (10 ^ 21)" for d
    using assms that by (simp add: toFixed_nonneg significand_js_div insert_point_one)
  have safe: "double_less (js_div n d) (10 ^ 21)" if "0 < n" "n < 2 ^ 53" "2 \<le> d" for d
    using that by (rule js_div_safe)
  have B: "formatPrice n =
      nat_toString (toFixed_n (js_div n 1000000000) 2 div 100) @ ''.'' @
        [digit_char (toFixed_n (js_div n 1000000000) 2 div 10 mod 10),
         digit_char (toFixed_n (js_div n 1000000000) 2 mod 10)] @ ''B''"
    if "1000000000 \<le> n" "double_less (js_div n 1000000000) (10 ^ 21)"
    using that two [of 1000000000] by (simp add: formatPrice_def)
  have Bx: "formatPrice n = positive_toString (Math_floor (js_div n 1000000000)) @ ''B''"
    if "1000000000 \<le> n" "\<not> double_less (js_div n 1000000000) (10 ^ 21)"
    using that assms toFixed_large [of "js_div n 1000000000" 2]
    by (simp add: formatPrice_def significand_js_div)
  have Bs: "double_less (js_div n 1000000000) (10 ^ 21)"
    if "1000000000 \<le> n" "n < 2 ^ 53"
    using that by (intro safe) simp_all
  have Bn: "\<bar>int (toFixed_n (js_div n 1000000000) 2) * 10000000 - n\<bar> \<le> 5000000"
    if "1000000000 \<le> n" "n < 2 ^ 53"
    using that by (intro toFixed_n_nearest [where f = 2]) simp_all
  have M: "formatPrice n =
      nat_toString (toFixed_n (js_div n 1000000) 2 div 100) @ ''.'' @
        [digit_char (toFixed_n (js_div n 1000000) 2 div 10 mod 10),
         digit_char (toFixed_n (js_div n 1000000) 2 mod 10)] @ ''M''"
    if "1000000 \<le> n" "n < 1000000000"
  proof -
    from that have "double_less (js_div n 1000000) (10 ^ 21)"
      by (intro safe) simp_all
    with that two [of 1000000] show ?thesis
      by (simp add: formatPrice_def)
  qed
  have Mn: "\<bar>int (toFixed_n (js_div n 1000000) 2) * 10000 - n\<bar> \<le> 5000"
    if "1000000 \<le> n" "n < 1000000000"
    using that by (intro toFixed_n_nearest [where f = 2]) simp_all
  have K: "formatPrice n =
      nat_toString (toFixed_n (js_div n 1000) 1 div 10) @ ''.'' @
        [digit_char (toFixed_n (js_div n 1000) 1 mod 10)] @ ''K''"
    if "1000 \<le> n" "n < 1000000"
  proof -
    from that have "double_less (js_div n 1000) (10 ^ 21)"
      by (intro safe) simp_all
    with that one [of 1000] show ?thesis
      by (simp add: formatPrice_def)
  qed
  have Kn: "\<bar>int (toFixed_n (js_div n 1000) 1) * 100 - n\<bar> \<le> 50"
    if "1000 \<le> n" "n < 1000000"
    using that by (intro toFixed_n_nearest [where f = 1]) simp_all
  have L: "formatPrice n = nat_toString (nat n)" if "n < 1000"
    using assms that toString_safe [of n] by (simp add: formatPrice_def)
  show ?thesis
    unfolding Let_def
    using B Bx Bs Bn M Mn K Kn L formatPrice_examples by blast
qed

theorem formatPrice_rendering_witness:
  "(0::int) \<le> 1234567 \<and> (1000000::int) \<le> 1234567 \<and> (1234567::int) < 1000000000 \<and>
   toFixed_n (js_div 1234567 1000000) 2 = 123 \<and>
   formatPrice 1234567 = ''1.23M'' \<and>
   \<bar>int (toFixed_n (js_div 1234567 1000000) 2) * 10000 - 1234567\<bar> \<le> 5000 \<and>
   (0::int) \<le> 2500000000 \<and> (1000000000::int) \<le> 2500000000 \<and>
   (2500000000::int) < 2 ^ 53 \<and>
   double_less (js_div 2500000000 1000000000) (10 ^ 21) \<and>
   toFixed_n (js_div 2500000000 1000000000) 2 = 250 \<and>
   formatPrice 2500000000 = ''2.50B'' \<and>
   (0::int) \<le> 1000000000000000019884624838656 \<and>
   (1000000000::int) \<le> 1000000000000000019884624838656 \<and>
   \<not> double_less (js_div 1000000000000000019884624838656 1000000000) (10 ^ 21) \<and>
   Math_floor (js_div 1000000000000000019884624838656 1000000000) =
     1000000000000000000000 \<and>
   formatPrice 1000000000000000019884624838656 = ''1e+21B''"
proof -
  have h: "(0::int) \<le> 1234567" by simp
  have n: "toFixed_n (js_div 1234567 1000000) 2 = 123"
    by (simp add: formatPrice_eval split del: if_split)
  have d: "nat_toString (123 div 100) @ ''.'' @
       [digit_char (123 div 10 mod 10), digit_char (123 mod 10)] @ ''M'' = ''1.23M''"
    by (simp add: nat_toString_eval digit_char_def)
  from formatPrice_rendering [OF h]
  have r: "formatPrice 1234567 =
      nat_toString (toFixed_n (js_div 1234567 1000000) 2 div 100) @ ''.'' @
       [digit_char (toFixed_n (js_div 1234567 1000000) 2 div 10 mod 10),
        digit_char (toFixed_n (js_div 1234567 1000000) 2 mod 10)] @ ''M''"
    and c: "\<bar>int (toFixed_n (js_div 1234567 1000000) 2) * 10000 - 1234567\<bar> \<le> 5000"
    by (simp_all add: Let_def)
  from r have M: "formatPrice 1234567 = ''1.23M''"
    unfolding n d .
  have h2: "(0::int) \<le> 2500000000" by simp
  have n2: "toFixed_n (js_div 2500000000 1000000000) 2 = 250"
    by (simp add: formatPrice_eval split del: if_split)
  have l2: "double_less (js_div 2500000000 1000000000) (10 ^ 21)"
    by (simp add: formatPrice_eval split del: if_split)
  have d2: "nat_toString (250 div 100) @ ''.'' @
       [digit_char (250 div 10 mod 10), digit_char (250 mod 10)] @ ''B'' = ''2.50B''"
    by (simp add: nat_toString_eval digit_char_def)
  from formatPrice_rendering [OF h2] l2
  have "formatPrice 2500000000 =
      nat_toString (toFixed_n (js_div 2500000000 1000000000) 2 div 100) @ ''.'' @
       [digit_char (toFixed_n (js_div 2500000000 1000000000) 2 div 10 mod 10),
        digit_char (toFixed_n (js_div 2500000000 1000000000) 2 mod 10)] @ ''B''"
    by (simp add: Let_def)
  then have B: "formatPrice 2500000000 = ''2.50B''"
    unfolding n2 d2 .
  have h3: "(0::int) \<le> 1000000000000000019884624838656" by simp
  have l3: "\<not> double_less (js_div 1000000000000000019884624838656 1000000000) (10 ^ 21)"
    by (simp add: formatPrice_eval split del: if_split)
  have f3: "Math_floor (js_div 1000000000000000019884624838656 1000000000) =
      1000000000000000000000"
    by (simp add: formatPrice_eval split del: if_split)
  have d3: "positive_toString 1000000000000000000000 = ''1e+21''"
    by (simp add: toString_eval double_round_eval nat_toString_Suc_eval split del: if_split)
  from formatPrice_rendering [OF h3] l3
  have "formatPrice 1000000000000000019884624838656 =
      positive_toString (Math_floor (js_div 1000000000000000019884624838656 1000000000)) @
        ''B''"
    by (simp add: Let_def)
  then have X: "formatPrice 1000000000000000019884624838656 = ''1e+21B''"
    unfolding f3 d3 by simp
  from c n M l2 n2 B l3 f3 X show ?thesis by simp
qed

section \<open>The summary block\<close>

lemma summary_run:
  "calculateProfits summary_items summary_prices = [alpha_record, beta_record]"
  by (simp add: summary_items_def summary_prices_def alpha_record_def beta_record_def
      run_simps split del: if_split)

lemma formatPrice_small: "0 \<le> n \<Longrightarrow> n < 1000 \<Longrightarrow> formatPrice n = nat_toString (nat n)"
  using toString_safe [of n] by (simp add: formatPrice_def)

text \<open>
  Claim C4, evaluated. With a reagent price of 120 and two records, of which the second
  has the larger batch profit, the summary names the first record as best batch and
  reports a reagent cost of 100.
\<close>

theorem displayResults_summary_example:
  "NATURE_RUNE_PRICE summary_prices = 120 \<and>
   calculateProfits summary_items summary_prices = [alpha_record, beta_record] \<and>
   batchProfit alpha_record = 380 \<and> batchProfit beta_record = 28000 \<and>
   take 5 (drop 6 (displayResults fixed_clock
                     (calculateProfits summary_items summary_prices))) =
     [Log (units ''SUMMARY:''),
      Log (units ''- Total profitable items: 2''),
      Log (units ''- Top item: Alpha (380 profit each)''),
      Log (units ''- Best batch: Alpha (380 per 4h cycle)''),
      Log (units ''- Nature rune cost: 100 gp (estimated)'')]"
proof -
  have "NATURE_RUNE_PRICE summary_prices = 120"
    by (simp add: NATURE_RUNE_PRICE_def summary_prices_def or_else_def)
  moreover have "batchProfit alpha_record = 380" "batchProfit beta_record = 28000"
    by (simp_all add: alpha_record_def beta_record_def)
  moreover have "take 5 (drop 6 (displayResults fixed_clock [alpha_record, beta_record])) =
     [Log (units ''SUMMARY:''),
      Log (units ''- Total profitable items: 2''),
      Log (units ''- Top item: Alpha (380 profit each)''),
      Log (units ''- Best batch: Alpha (380 per 4h cycle)''),
      Log (units ''- Nature rune cost: 100 gp (estimated)'')]"
    by (simp add: displayResults_def Let_def top_name_def or_else_def formatPrice_small
        alpha_record_def beta_record_def toString_eval nat_toString_eval units_def
        split del: if_split)
  ultimately show ?thesis
    by (simp add: summary_run)
qed

section \<open>The exit status of main\<close>

lemma Promise_all_rejects:
  "(\<exists>e. p = Inl e) \<or> (\<exists>e. q = Inl e) \<Longrightarrow> \<exists>e. Promise_all b p q = Inl e"
  by (cases p; cases q) (auto simp: Promise_all_def)

lemma Promise_all_first:
  "Promise_all True (Inl e) q = Inl e"
  by (cases q) (simp_all add: Promise_all_def)

lemma Promise_all_second:
  "Promise_all False p (Inl e) = Inl e"
  by (cases p) (simp_all add: Promise_all_def)

lemma error_text_eq:
  "error_text (Error m) = [0x0A, 0x274C] @ units '' Error: '' @ m"
  "error_text Not_an_Error = [0x0A, 0x274C] @ units '' Error: '' @ units ''Unknown error''"
  by (simp_all add: error_text_def newline_def glyph_cross_def units_def)

lemma main_rejected:
  assumes "Promise_all b (fetchItemMapping fm) (fetchLatestPrices fl) = Inl e"
  shows "main s c t b fm fl =
    Run \<lparr> stdout = [Log ([0xD83D, 0xDD04] @ units '' Fetching OSRS market data...'')],
          stderr = [error_text e], exit_status = 1 \<rparr>"
  using assms by (simp add: main_def Let_def glyph_arrows_def)

lemma error_text_message: "\<exists>m. error_text e = [0x0A, 0x274C] @ units '' Error: '' @ m"
  by (cases e) (auto simp: error_text_eq)

lemma fetchItemMapping_fails:
  "fm = Inl e \<or> (fm = Inr r \<and> (\<not> ok r \<or> json r = Inl e)) \<Longrightarrow>
   \<exists>e'. fetchItemMapping fm = Inl e'"
  by (auto simp: fetchItemMapping_def)

lemma fetchLatestPrices_fails:
  "fl = Inl e \<or> (fl = Inr r \<and> (\<not> ok r \<or> json r = Inl e)) \<Longrightarrow>
   \<exists>e'. fetchLatestPrices fl = Inl e'"
  by (auto simp: fetchLatestPrices_def)

text \<open>
  Claim C6, as stated, fails in two ways. A refused request (status 500) does end with
  exit status 1, but the text written to standard error starts with a line break: it
  is an empty line followed by the line of the message. And a body that is JSON but not
  of the expected shape is not detected: with the string "maintenance" in place of the
  catalog, the run reports 11 items, prints the notice and ends with exit status 0.
\<close>

theorem main_error_counterexample:
  "main 0 fixed_clock 0 True (Inr mapping_refused) (Inr latest_fetched) =
     Run \<lparr> stdout = [Log ([0xD83D, 0xDD04] @ units '' Fetching OSRS market data...'')],
           stderr = [[0x0A] @ [0x274C] @
                     units '' Error: Failed to fetch item mapping: 500 Internal Server Error''],
           exit_status = 1 \<rparr> \<and>
   json mapping_maintenance = Inr (JString (units ''maintenance'')) \<and>
   main 0 fixed_clock 0 True (Inr mapping_maintenance) (Inr latest_fetched) =
     Run \<lparr> stdout = [Log ([0xD83D, 0xDD04] @ units '' Fetching OSRS market data...''),
                     Log ([0x2705] @ units '' Loaded 11 items and 1 price entries''),
                     Log ([0xD83E, 0xDDEE] @ units '' Calculating High Alchemy profits...''),
                     Log ([0x0A, 0x274C] @
                          units '' No profitable High Alchemy items found at current prices.''),
                     Log (units ''   Try again later when market prices change.'' @ [0x0A])],
           stderr = [], exit_status = 0 \<rparr>"
proof -
  have "main 0 fixed_clock 0 True (Inr mapping_refused) (Inr latest_fetched) =
     Run \<lparr> stdout = [Log ([0xD83D, 0xDD04] @ units '' Fetching OSRS market data...'')],
           stderr = [[0x0A] @ [0x274C] @
                     units '' Error: Failed to fetch item mapping: 500 Internal Server Error''],
           exit_status = 1 \<rparr>"
    by (simp add: main_def Let_def fetchItemMapping_def fetchLatestPrices_def Promise_all_def
        mapping_refused_def latest_fetched_def error_text_def newline_def glyph_cross_def
        glyph_arrows_def toString_eval units_def split del: if_split)
  moreover have "main 0 fixed_clock 0 True (Inr mapping_maintenance) (Inr latest_fetched) =
     Run \<lparr> stdout = [Log ([0xD83D, 0xDD04] @ units '' Fetching OSRS market data...''),
                     Log ([0x2705] @ units '' Loaded 11 items and 1 price entries''),
                     Log ([0xD83E, 0xDDEE] @ units '' Calculating High Alchemy profits...''),
                     Log ([0x0A, 0x274C] @
                          units '' No profitable High Alchemy items found at current prices.''),
                     Log (units ''   Try again later when market prices change.'' @ [0x0A])],
           stderr = [], exit_status = 0 \<rparr>"
    by (simp add: main_def Let_def fetchItemMapping_def fetchLatestPrices_def Promise_all_def
        mapping_maintenance_def latest_fetched_def trinket_entries_def catalog_view_def
        prices_view_def as_PriceData_def as_number_or_null_def calculateProfits_def
        sort_cmp_def newline_def glyph_cross_def glyph_check_def glyph_abacus_def
        glyph_arrows_def toString_eval units_def split del: if_split)
  ultimately show ?thesis
    by (simp add: mapping_maintenance_def)
qed

text \<open>
  Claim C6, amended. When both responses arrive with bodies of the expected shape and
  no record qualifies, the run ends with the two lines of the notice, writes nothing to
  standard error and has exit status 0. When a fetch rejects, a response has a status
  that is not a success, or a body is not JSON, the run stops after its first line of
  output, calls \<open>console.error\<close> once and has exit status 1; the text written is a
  line break, the mark, "Error:" and a message. The message is that of the promise
  that rejects first: for a refused request it names the request, the status and the
  status text, for a thrown \<open>Error\<close> it is its message, and for any other thrown value
  it is "Unknown error".
\<close>

theorem main_exit_status:
  "(ok mapping \<and> json mapping = Inr (JArray elements) \<and>
    those (map as_ItemMapping elements) = Some items \<and>
    ok latest \<and> json latest = Inr (JObject props) \<and>
    map_of props (units ''data'') = Some (JObject entries) \<and>
    those (map (\<lambda>(key, p). map_option (Pair key) (as_PriceData p)) entries) = Some typed \<and>
    calculateProfits items (\<lambda>key. map_of typed (units key)) = [] \<longrightarrow>
      (\<exists>out. main startTime Date_now endTime b (Inr mapping) (Inr latest) =
         Run \<lparr> stdout = out @
                 [Log ([0x0A, 0x274C] @
                       units '' No profitable High Alchemy items found at current prices.''),
                  Log (units ''   Try again later when market prices change.'' @ [0x0A])],
               stderr = [], exit_status = 0 \<rparr>)) \<and>
   (fm = Inl e \<or> (fm = Inr r \<and> (\<not> ok r \<or> json r = Inl e)) \<or>
    fl = Inl e' \<or> (fl = Inr r' \<and> (\<not> ok r' \<or> json r' = Inl e')) \<longrightarrow>
      (\<exists>m. main startTime Date_now endTime b fm fl =
         Run \<lparr> stdout = [Log ([0xD83D, 0xDD04] @ units '' Fetching OSRS market data...'')],
               stderr = [[0x0A, 0x274C] @ units '' Error: '' @ m],
               exit_status = 1 \<rparr>)) \<and>
   (\<not> ok r \<longrightarrow>
      main startTime Date_now endTime True (Inr r) fl =
         Run \<lparr> stdout = [Log ([0xD83D, 0xDD04] @ units '' Fetching OSRS market data...'')],
               stderr = [[0x0A, 0x274C] @ units '' Error: '' @
                         units ''Failed to fetch item mapping: '' @
                         units (toString (status r)) @ units '' '' @ statusText r],
               exit_status = 1 \<rparr>) \<and>
   (\<not> ok r' \<longrightarrow>
      main startTime Date_now endTime False fm (Inr r') =
         Run \<lparr> stdout = [Log ([0xD83D, 0xDD04] @ units '' Fetching OSRS market data...'')],
               stderr = [[0x0A, 0x274C] @ units '' Error: '' @
                         units ''Failed to fetch latest prices: '' @
                         units (toString (status r')) @ units '' '' @ statusText r'],
               exit_status = 1 \<rparr>) \<and>
   main startTime Date_now endTime True (Inl (Error message)) fl =
      Run \<lparr> stdout = [Log ([0xD83D, 0xDD04] @ units '' Fetching OSRS market data...'')],
            stderr = [[0x0A, 0x274C] @ units '' Error: '' @ message],
            exit_status = 1 \<rparr> \<and>
   main startTime Date_now endTime True (Inl Not_an_Error) fl =
      Run \<lparr> stdout = [Log ([0xD83D, 0xDD04] @ units '' Fetching OSRS market data...'')],
            stderr = [[0x0A, 0x274C] @ units '' Error: '' @ units ''Unknown error''],
            exit_status = 1 \<rparr>"
proof -
  have empty: "\<exists>out. main startTime Date_now endTime b (Inr mapping) (Inr latest) =
         Run \<lparr> stdout = out @
                 [Log ([0x0A, 0x274C] @
                       units '' No profitable High Alchemy items found at current prices.''),
                  Log (units ''   Try again later when market prices change.'' @ [0x0A])],
               stderr = [], exit_status = 0 \<rparr>"
    if "ok mapping" "json mapping = Inr (JArray elements)"
      "those (map as_ItemMapping elements) = Some items"
      "ok latest" "json latest = Inr (JObject props)"
      "map_of props (units ''data'') = Some (JObject entries)"
      "those (map (\<lambda>(key, p). map_option (Pair key) (as_PriceData p)) entries) = Some typed"
      "calculateProfits items (\<lambda>key. map_of typed (units key)) = []"
  proof -
    have "main startTime Date_now endTime b (Inr mapping) (Inr latest) =
       Run \<lparr> stdout =
               [Log (glyph_arrows @ units '' Fetching OSRS market data...''),
                Log (glyph_check @ units '' Loaded '' @
                     units (toString (int (length elements))) @ units '' items and '' @
                     units (toString (int (length (remdups (map fst entries))))) @
                     units '' price entries''),
                Log (glyph_abacus @ units '' Calculating High Alchemy profits...'')] @
               [Log ([0x0A, 0x274C] @
                     units '' No profitable High Alchemy items found at current prices.''),
                Log (units ''   Try again later when market prices change.'' @ [0x0A])],
             stderr = [], exit_status = 0 \<rparr>"
      using that
      by (simp add: main_def Let_def fetchItemMapping_def fetchLatestPrices_def
          Promise_all_def catalog_view_def prices_view_def newline_def glyph_cross_def)
    then show ?thesis by blast
  qed
  have failed: "\<exists>m. main startTime Date_now endTime b fm fl =
         Run \<lparr> stdout = [Log ([0xD83D, 0xDD04] @ units '' Fetching OSRS market data...'')],
               stderr = [[0x0A, 0x274C] @ units '' Error: '' @ m],
               exit_status = 1 \<rparr>"
    if "fm = Inl e \<or> (fm = Inr r \<and> (\<not> ok r \<or> json r = Inl e)) \<or>
        fl = Inl e' \<or> (fl = Inr r' \<and> (\<not> ok r' \<or> json r' = Inl e'))"
  proof -
    from that have "(\<exists>x. fetchItemMapping fm = Inl x) \<or> (\<exists>x. fetchLatestPrices fl = Inl x)"
      using fetchItemMapping_fails [of fm e r] fetchLatestPrices_fails [of fl e' r']
      by blast
    then obtain x where "Promise_all b (fetchItemMapping fm) (fetchLatestPrices fl) = Inl x"
      using Promise_all_rejects by blast
    then have "main startTime Date_now endTime b fm fl =
        Run \<lparr> stdout = [Log ([0xD83D, 0xDD04] @ units '' Fetching OSRS market data...'')],
              stderr = [error_text x], exit_status = 1 \<rparr>"
      by (rule main_rejected)
    moreover obtain m where "error_text x = [0x0A, 0x274C] @ units '' Error: '' @ m"
      using error_text_message by blast
    ultimately show ?thesis by simp
  qed
  have refused_mapping: "main startTime Date_now endTime True (Inr r) fl =
         Run \<lparr> stdout = [Log ([0xD83D, 0xDD04] @ units '' Fetching OSRS market data...'')],
               stderr = [[0x0A, 0x274C] @ units '' Error: '' @
                         units ''Failed to fetch item mapping: '' @
                         units (toString (status r)) @ units '' '' @ statusText r],
               exit_status = 1 \<rparr>"
    if "\<not> ok r"
  proof -
    from that have "fetchItemMapping (Inr r) =
        Inl (Error (units ''Failed to fetch item mapping: '' @
                    units (toString (status r)) @ units '' '' @ statusText r))"
      by (simp add: fetchItemMapping_def)
    then have "Promise_all True (fetchItemMapping (Inr r)) (fetchLatestPrices fl) =
        Inl (Error (units ''Failed to fetch item mapping: '' @
                    units (toString (status r)) @ units '' '' @ statusText r))"
      by (simp only: Promise_all_first)
    from main_rejected [OF this] show ?thesis
      by (simp only: error_text_eq)
  qed
  have refused_latest: "main startTime Date_now endTime False fm (Inr r') =
         Run \<lparr> stdout = [Log ([0xD83D, 0xDD04] @ units '' Fetching OSRS market data...'')],
               stderr = [[0x0A, 0x274C] @ units '' Error: '' @
                         units ''Failed to fetch latest prices: '' @
                         units (toString (status r')) @ units '' '' @ statusText r'],
               exit_status = 1 \<rparr>"
    if "\<not> ok r'"
  proof -
    from that have "fetchLatestPrices (Inr r') =
        Inl (Error (units ''Failed to fetch latest prices: '' @
                    units (toString (status r')) @ units '' '' @ statusText r'))"
      by (simp add: fetchLatestPrices_def)
    then have "Promise_all False (fetchItemMapping fm) (fetchLatestPrices (Inr r')) =
        Inl (Error (units ''Failed to fetch latest prices: '' @
                    units (toString (status r')) @ units '' '' @ statusText r'))"
      by (simp only: Promise_all_second)
    from main_rejected [OF this] show ?thesis
      by (simp only: error_text_eq)
  qed
  have thrown: "main startTime Date_now endTime True (Inl x) fl =
      Run \<lparr> stdout = [Log ([0xD83D, 0xDD04] @ units '' Fetching OSRS market data...'')],
            stderr = [error_text x], exit_status = 1 \<rparr>" for x
  proof -
    have "Promise_all True (fetchItemMapping (Inl x)) (fetchLatestPrices fl) = Inl x"
      by (simp add: fetchItemMapping_def Promise_all_first)
    then show ?thesis by (rule main_rejected)
  qed
  from empty failed refused_mapping refused_latest
    thrown [of "Error message"] thrown [of Not_an_Error]
  show ?thesis
    by (simp only: error_text_eq) blast
qed

lemma trinket_typed_items:
  "those (map as_ItemMapping trinket_elements) = Some trinket_items"
  by (simp add: trinket_elements_def trinket_items_def as_ItemMapping_def
      as_number_or_null_def units_def)

lemma trinket_typed_prices:
  "those (map (\<lambda>(key, p). map_option (Pair key) (as_PriceData p)) trinket_entries) =
     Some trinket_typed"
  by (simp add: trinket_entries_def trinket_typed_def as_PriceData_def
      as_number_or_null_def units_def)

lemma trinket_run:
  "calculateProfits trinket_items (\<lambda>key. map_of trinket_typed (units key)) = []"
  by (simp add: trinket_items_def trinket_typed_def run_simps units_def split del: if_split)

theorem main_exit_status_witness:
  "ok mapping_fetched \<and> json mapping_fetched = Inr (JArray trinket_elements) \<and>
   those (map as_ItemMapping trinket_elements) = Some trinket_items \<and>
   ok latest_fetched \<and>
   json latest_fetched = Inr (JObject [(units ''data'', JObject trinket_entries)]) \<and>
   map_of [(units ''data'', JObject trinket_entries)] (units ''data'') =
     Some (JObject trinket_entries) \<and>
   those (map (\<lambda>(key, p). map_option (Pair key) (as_PriceData p)) trinket_entries) =
     Some trinket_typed \<and>
   calculateProfits trinket_items (\<lambda>key. map_of trinket_typed (units key)) = [] \<and>
   (\<exists>out. main 0 fixed_clock 0 True (Inr mapping_fetched) (Inr latest_fetched) =
      Run \<lparr> stdout = out @
              [Log ([0x0A, 0x274C] @
                    units '' No profitable High Alchemy items found at current prices.''),
               Log (units ''   Try again later when market prices change.'' @ [0x0A])],
            stderr = [], exit_status = 0 \<rparr>) \<and>
   \<not> ok mapping_refused \<and>
   (\<exists>m. main 0 fixed_clock 0 False (Inr mapping_refused) (Inr latest_fetched) =
      Run \<lparr> stdout = [Log ([0xD83D, 0xDD04] @ units '' Fetching OSRS market data...'')],
            stderr = [[0x0A, 0x274C] @ units '' Error: '' @ m],
            exit_status = 1 \<rparr>) \<and>
   main 0 fixed_clock 0 True (Inr mapping_refused) (Inr latest_fetched) =
      Run \<lparr> stdout = [Log ([0xD83D, 0xDD04] @ units '' Fetching OSRS market data...'')],
            stderr = [[0x0A, 0x274C] @ units '' Error: '' @
                      units ''Failed to fetch item mapping: '' @
                      units ''500'' @ units '' '' @ units ''Internal Server Error''],
            exit_status = 1 \<rparr> \<and>
   main 0 fixed_clock 0 False (Inr mapping_fetched) (Inr mapping_refused) =
      Run \<lparr> stdout = [Log ([0xD83D, 0xDD04] @ units '' Fetching OSRS market data...'')],
            stderr = [[0x0A, 0x274C] @ units '' Error: '' @
                      units ''Failed to fetch latest prices: '' @
                      units ''500'' @ units '' '' @ units ''Internal Server Error''],
            exit_status = 1 \<rparr>"
proof -
  have m: "ok mapping_fetched" "json mapping_fetched = Inr (JArray trinket_elements)"
    by (simp_all add: mapping_fetched_def)
  have l: "ok latest_fetched"
    "json latest_fetched = Inr (JObject [(units ''data'', JObject trinket_entries)])"
    by (simp_all add: latest_fetched_def)
  have d: "map_of [(units ''data'', JObject trinket_entries)] (units ''data'') =
      Some (JObject trinket_entries)"
    by simp
  have r: "\<not> ok mapping_refused" "status mapping_refused = 500"
    "statusText mapping_refused = units ''Internal Server Error''"
    by (simp_all add: mapping_refused_def)
  have s: "toString 500 = ''500''"
    by (simp add: toString_eval)
  note t = main_exit_status [where mapping = mapping_fetched and elements = trinket_elements
      and items = trinket_items and latest = latest_fetched
      and props = "[(units ''data'', JObject trinket_entries)]"
      and entries = trinket_entries and typed = trinket_typed
      and startTime = 0 and Date_now = fixed_clock and endTime = 0
      and r = mapping_refused and r' = mapping_refused]
  from t [where b = True] m l d trinket_typed_items trinket_typed_prices trinket_run
  have "\<exists>out. main 0 fixed_clock 0 True (Inr mapping_fetched) (Inr latest_fetched) =
      Run \<lparr> stdout = out @
              [Log ([0x0A, 0x274C] @
                    units '' No profitable High Alchemy items found at current prices.''),
               Log (units ''   Try again later when market prices change.'' @ [0x0A])],
            stderr = [], exit_status = 0 \<rparr>"
    by blast
  moreover from t [where b = False and fm = "Inr mapping_refused"
      and fl = "Inr latest_fetched"] r(1)
  have "\<exists>m. main 0 fixed_clock 0 False (Inr mapping_refused) (Inr latest_fetched) =
      Run \<lparr> stdout = [Log ([0xD83D, 0xDD04] @ units '' Fetching OSRS market data...'')],
            stderr = [[0x0A, 0x274C] @ units '' Error: '' @ m],
            exit_status = 1 \<rparr>"
    by blast
  moreover from t [where fl = "Inr latest_fetched"] r(1)
  have "main 0 fixed_clock 0 True (Inr mapping_refused) (Inr latest_fetched) =
      Run \<lparr> stdout = [Log ([0xD83D, 0xDD04] @ units '' Fetching OSRS market data...'')],
            stderr = [[0x0A, 0x274C] @ units '' Error: '' @
                      units ''Failed to fetch item mapping: '' @
                      units (toString (status mapping_refused)) @ units '' '' @
                      statusText mapping_refused],
            exit_status = 1 \<rparr>"
    by blast
  moreover from t [where fm = "Inr mapping_fetched"] r(1)
  have "main 0 fixed_clock 0 False (Inr mapping_fetched) (Inr mapping_refused) =
      Run \<lparr> stdout = [Log ([0xD83D, 0xDD04] @ units '' Fetching OSRS market data...'')],
            stderr = [[0x0A, 0x274C] @ units '' Error: '' @
                      units ''Failed to fetch latest prices: '' @
                      units (toString (status mapping_refused)) @ units '' '' @
                      statusText mapping_refused],
            exit_status = 1 \<rparr>"
    by blast
  ultimately show ?thesis
    using m l d r(1) trinket_typed_items trinket_typed_prices trinket_run
    by (simp only: r(2,3) s) blast
qed

section \<open>calculateProfits on a heap\<close>

lemma item_at_append: "item_at h a = Some x \<Longrightarrow> item_at (h @ t) a = Some x"
  by (auto simp: item_at_def nth_append split: if_splits)

lemma price_at_append: "price_at h a = Some x \<Longrightarrow> price_at (h @ t) a = Some x"
  by (auto simp: price_at_def nth_append split: if_splits)

lemma array_at_append: "array_at h a = Some x \<Longrightarrow> array_at (h @ t) a = Some x"
  by (auto simp: array_at_def nth_append split: if_splits)

lemma price_map_at_append:
  "price_map_at h a = Some x \<Longrightarrow> price_map_at (h @ t) a = Some x"
  by (auto simp: price_map_at_def nth_append split: if_splits)

lemma prices_of_append:
  assumes "prices_well_formed h prices_addr" "prices_of h prices_addr = Some prices"
  shows "prices_well_formed (h @ t) prices_addr \<and> prices_of (h @ t) prices_addr = Some prices"
proof -
  from assms(1) obtain m where m: "price_map_at h prices_addr = Some m"
    and wf: "list_all (\<lambda>(key, a). price_at h a \<noteq> None) m"
    by (auto simp: prices_well_formed_def split: option.splits)
  have m': "price_map_at (h @ t) prices_addr = Some m"
    using m by (rule price_map_at_append)
  have same: "price_at (h @ t) a = price_at h a" if "(key, a) \<in> set m" for key a
  proof -
    from wf that obtain p where "price_at h a = Some p"
      by (auto simp: list_all_iff)
    then show ?thesis by (simp add: price_at_append)
  qed
  have "list_all (\<lambda>(key, a). price_at (h @ t) a \<noteq> None) m"
    using wf same by (auto simp: list_all_iff)
  then have wf': "prices_well_formed (h @ t) prices_addr"
    by (simp add: prices_well_formed_def m')
  have "(case map_of m key of None \<Rightarrow> None | Some a \<Rightarrow> price_at (h @ t) a) =
        (case map_of m key of None \<Rightarrow> None | Some a \<Rightarrow> price_at h a)" for key
    using same by (auto split: option.splits dest: map_of_SomeD)
  then have "prices_of (h @ t) prices_addr = prices_of h prices_addr"
    by (simp add: prices_of_def m m')
  with wf' assms(2) show ?thesis by simp
qed

lemma loop_heap_append: "loop_heap h rs = h @ drop (length h) (loop_heap h rs)"
  by (simp add: loop_heap_def)

lemma length_loop_heap: "length (loop_heap h rs) = Suc (length h + length rs)"
  by (simp add: loop_heap_def)

lemma array_at_loop_heap:
  "array_at (loop_heap h rs) (length h) =
     Some (map (\<lambda>k. Suc (length h + k)) [0..<length rs])"
  by (simp add: array_at_def loop_heap_def nth_append)

lemma record_at_loop_heap:
  "k < length rs \<Longrightarrow> record_at (loop_heap h rs @ t) (Suc (length h + k)) = Some (rs ! k)"
  by (simp add: record_at_def loop_heap_def nth_append)

lemma loop_heap_push:
  "array_push (length h) (length (loop_heap h rs)) (loop_heap h rs @ [Record_object r]) =
     loop_heap h (rs @ [r])"
proof -
  have "array_at (loop_heap h rs @ [Record_object r]) (length h) =
      Some (map (\<lambda>k. Suc (length h + k)) [0..<length rs])"
    by (intro array_at_append array_at_loop_heap)
  then show ?thesis
    by (simp add: array_push_def length_loop_heap) (simp add: loop_heap_def list_update_append)
qed

lemma loop_pass_step:
  assumes "item_at h item_addr = Some item"
    and "prices_well_formed h prices_addr" "prices_of h prices_addr = Some prices"
  shows "loop_pass prices_addr (length h) nrp (loop_heap h rs) item_addr =
           loop_heap h (loop_body prices nrp rs item)"
proof -
  have i: "item_at (loop_heap h rs) item_addr = Some item"
    using assms(1) by (subst loop_heap_append) (rule item_at_append)
  have p: "prices_of (loop_heap h rs) prices_addr = Some prices"
    using prices_of_append [OF assms(2,3)] by (subst loop_heap_append) simp
  show ?thesis
    by (simp add: loop_pass_def i p loop_body_def new_object_def loop_heap_push
        split: option.splits)
qed

lemma those_map_Some:
  "those (map f xs) = Some ys \<Longrightarrow>
   length ys = length xs \<and> (\<forall>i < length xs. f (xs ! i) = Some (ys ! i))"
proof (induction xs arbitrary: ys)
  case Nil
  then show ?case by simp
next
  case (Cons x xs)
  from Cons.prems obtain y ys' where y: "f x = Some y"
    and ys': "those (map f xs) = Some ys'" and ys: "ys = y # ys'"
    by (auto split: option.splits)
  from Cons.IH [OF ys'] y ys show ?case
    by (auto simp: nth_Cons split: nat.splits)
qed

lemma those_map_SomeI:
  "\<forall>i < length xs. f (xs ! i) = Some (g (xs ! i)) \<Longrightarrow> those (map f xs) = Some (map g xs)"
proof (induction xs)
  case Nil
  then show ?case by simp
next
  case (Cons x xs)
  from Cons.prems have "f x = Some (g x)" by auto
  moreover from Cons.prems have "\<forall>i < length xs. f (xs ! i) = Some (g (xs ! i))"
    by auto
  ultimately show ?case
    using Cons.IH by simp
qed

lemma for_of_loop:
  assumes xs: "array_at h items_addr = Some xs"
    and items: "those (map (item_at h) xs) = Some items"
    and wf: "prices_well_formed h prices_addr"
    and prices: "prices_of h prices_addr = Some prices"
  shows "i \<le> length xs \<Longrightarrow> length xs - i < fuel \<Longrightarrow>
     for_of fuel (loop_pass prices_addr (length h) nrp) items_addr i (loop_heap h rs) =
       Some (loop_heap h (foldl (loop_body prices nrp) rs (drop i items)))"
proof (induction fuel arbitrary: i rs)
  case 0
  then show ?case by simp
next
  case (Suc fuel)
  from those_map_Some [OF items]
  have len: "length items = length xs"
    and at: "\<And>k. k < length xs \<Longrightarrow> item_at h (xs ! k) = Some (items ! k)"
    by simp_all
  have arr: "array_at (loop_heap h rs) items_addr = Some xs"
    using xs by (subst loop_heap_append) (rule array_at_append)
  show ?case
  proof (cases "i < length xs")
    case True
    have step: "loop_pass prices_addr (length h) nrp (loop_heap h rs) (xs ! i) =
        loop_heap h (loop_body prices nrp rs (items ! i))"
      using at [OF True] wf prices by (rule loop_pass_step)
    from True Suc.prems have "Suc i \<le> length xs" "length xs - Suc i < fuel"
      by simp_all
    from Suc.IH [OF this]
    have "for_of fuel (loop_pass prices_addr (length h) nrp) items_addr (Suc i)
            (loop_heap h (loop_body prices nrp rs (items ! i))) =
          Some (loop_heap h (foldl (loop_body prices nrp) (loop_body prices nrp rs (items ! i))
                  (drop (Suc i) items)))" .
    moreover have "drop i items = items ! i # drop (Suc i) items"
      using True len by (simp add: Cons_nth_drop_Suc)
    ultimately show ?thesis
      using True by (simp add: arr step)
  next
    case False
    with Suc.prems len show ?thesis
      by (simp add: arr)
  qed
qed

lemma sort_cmp_Cons: "sort_cmp cmp (x # xs) = insort_cmp cmp x (sort_cmp cmp xs)"
  by (simp add: sort_cmp_def)

lemma insort_cmp_map:
  assumes "\<forall>y \<in> set ys. cmp' x y = cmp (d x) (d y)"
  shows "map d (insort_cmp cmp' x ys) = insort_cmp cmp (d x) (map d ys)"
  using assms by (induction ys) simp_all

lemma sort_cmp_map:
  assumes "\<forall>x \<in> set xs. \<forall>y \<in> set xs. cmp' x y = cmp (d x) (d y)"
  shows "map d (sort_cmp cmp' xs) = sort_cmp cmp (map d xs)"
  using assms
proof (induction xs)
  case Nil
  show ?case by (simp add: sort_cmp_def)
next
  case (Cons x xs)
  from Cons.prems have IH: "map d (sort_cmp cmp' xs) = sort_cmp cmp (map d xs)"
    by (intro Cons.IH) simp
  from Cons.prems
  have "\<forall>y \<in> set (sort_cmp cmp' xs). cmp' x y = cmp (d x) (d y)"
    by (simp add: set_sort_cmp)
  then have "map d (insort_cmp cmp' x (sort_cmp cmp' xs)) =
      insort_cmp cmp (d x) (map d (sort_cmp cmp' xs))"
    by (rule insort_cmp_map)
  then show ?case
    by (simp add: sort_cmp_Cons IH)
qed

lemma catalog_of_append:
  assumes "catalog_of h items_addr = Some items"
  shows "catalog_of (h @ t) items_addr = Some items"
proof -
  from assms obtain xs where xs: "array_at h items_addr = Some xs"
    and items: "those (map (item_at h) xs) = Some items"
    by (auto simp: catalog_of_def split: option.splits)
  from those_map_Some [OF items]
  have at: "\<And>k. k < length xs \<Longrightarrow> item_at h (xs ! k) = Some (items ! k)"
    by simp
  have eq: "map (item_at (h @ t)) xs = map (item_at h) xs"
  proof (rule nth_equalityI)
    show "length (map (item_at (h @ t)) xs) = length (map (item_at h) xs)" by simp
  next
    fix k assume "k < length (map (item_at (h @ t)) xs)"
    then have k: "k < length xs" by simp
    from at [OF k] have "item_at (h @ t) (xs ! k) = Some (items ! k)"
      by (rule item_at_append)
    with at [OF k] k show "map (item_at (h @ t)) xs ! k = map (item_at h) xs ! k"
      by simp
  qed
  have "those (map (item_at (h @ t)) xs) = Some items"
    unfolding eq by (rule items)
  with array_at_append [OF xs, of t] show ?thesis
    by (simp add: catalog_of_def)
qed

lemma calculateProfits_on_heap_result:
  assumes cat: "catalog_of h items_addr = Some items"
    and wf: "prices_well_formed h prices_addr"
    and prices: "prices_of h prices_addr = Some prices"
    and fuel: "length items < fuel"
  shows "\<exists>t. calculateProfits_on_heap fuel items_addr prices_addr h = Some (length h, h @ t) \<and>
           records_of (h @ t) (length h) = Some (calculateProfits items prices)"
proof -
  define nrp where "nrp = NATURE_RUNE_PRICE prices"
  define rs where "rs = foldl (loop_body prices nrp) [] items"
  define idx where "idx = map (\<lambda>k. Suc (length h + k)) [0..<length rs]"
  define cmp' where "cmp' = (\<lambda>a b. js_sub (profit_at (loop_heap h rs) b)
                                        (profit_at (loop_heap h rs) a))"
  define d where "d = (\<lambda>a. rs ! (a - Suc (length h)))"
  define t where "t = Array (sort_cmp cmp' idx) # map Record_object rs"
  from cat obtain xs where xs: "array_at h items_addr = Some xs"
    and items: "those (map (item_at h) xs) = Some items"
    by (auto simp: catalog_of_def split: option.splits)
  from those_map_Some [OF items] have len: "length items = length xs" by simp
  have start: "h @ [Array []] = loop_heap h []"
    by (simp add: loop_heap_def)
  have "for_of fuel (loop_pass prices_addr (length h) nrp) items_addr 0 (loop_heap h []) =
      Some (loop_heap h (foldl (loop_body prices nrp) [] (drop 0 items)))"
    using xs items wf prices
  proof (rule for_of_loop)
    show "0 \<le> length xs" by simp
    show "length xs - 0 < fuel" using fuel len by simp
  qed
  then have loop: "for_of fuel (loop_pass prices_addr (length h) nrp) items_addr 0
      (h @ [Array []]) = Some (loop_heap h rs)"
    by (simp add: start rs_def)
  have sorted: "array_sort (length h) cmp' (loop_heap h rs) = h @ t"
    by (simp add: array_sort_def array_at_loop_heap idx_def t_def)
      (simp add: loop_heap_def)
  have run: "calculateProfits_on_heap fuel items_addr prices_addr h = Some (length h, h @ t)"
    using loop sorted
    by (simp add: calculateProfits_on_heap_def prices new_object_def Let_def
        nrp_def [symmetric] cmp'_def [symmetric])
  have rec: "record_at (loop_heap h rs) a = Some (d a)"
    and rec': "record_at (h @ t) a = Some (d a)" if "a \<in> set idx" for a
  proof -
    from that obtain k where k: "k < length rs" and a: "a = Suc (length h + k)"
      by (auto simp: idx_def)
    from record_at_loop_heap [OF k, of h "[]"]
    show "record_at (loop_heap h rs) a = Some (d a)"
      by (simp add: a d_def)
    from k show "record_at (h @ t) a = Some (d a)"
      by (simp add: a d_def t_def record_at_def nth_append)
  qed
  have "\<forall>a \<in> set idx. \<forall>b \<in> set idx.
      cmp' a b = (\<lambda>a b. js_sub (profit b) (profit a)) (d a) (d b)"
    by (simp add: cmp'_def profit_at_def rec)
  then have "map d (sort_cmp cmp' idx) =
      sort_cmp (\<lambda>a b. js_sub (profit b) (profit a)) (map d idx)"
    by (rule sort_cmp_map)
  moreover have "map d idx = rs"
    by (simp add: idx_def d_def o_def map_nth)
  ultimately have sorted_records: "map d (sort_cmp cmp' idx) = calculateProfits items prices"
    by (simp add: calculateProfits_def Let_def rs_def nrp_def)
  have "\<forall>i < length (sort_cmp cmp' idx).
      record_at (h @ t) (sort_cmp cmp' idx ! i) = Some (d (sort_cmp cmp' idx ! i))"
  proof (intro allI impI)
    fix i assume "i < length (sort_cmp cmp' idx)"
    then have "sort_cmp cmp' idx ! i \<in> set (sort_cmp cmp' idx)"
      by (rule nth_mem)
    then have "sort_cmp cmp' idx ! i \<in> set idx"
      by (simp add: set_sort_cmp)
    then show "record_at (h @ t) (sort_cmp cmp' idx ! i) = Some (d (sort_cmp cmp' idx ! i))"
      by (rule rec')
  qed
  then have "those (map (record_at (h @ t)) (sort_cmp cmp' idx)) =
      Some (map d (sort_cmp cmp' idx))"
    by (rule those_map_SomeI)
  moreover have "array_at (h @ t) (length h) = Some (sort_cmp cmp' idx)"
    by (simp add: array_at_def t_def)
  ultimately have "records_of (h @ t) (length h) = Some (calculateProfits items prices)"
    by (simp add: records_of_def sorted_records)
  with run show ?thesis by blast
qed

text \<open>
  Claim C8. Let a heap hold the catalog (an array of items) and the price object (every
  entry leading to a price), and let \<open>items\<close> and \<open>prices\<close> be what they contain. A
  call of \<open>calculateProfits\<close> returns (the loop ends within \<open>length items + 1\<close> steps).
  It returns a new array, whose address was not in use before; every cell that
  existed before the call is unchanged, so that the catalog and the price object still
  contain \<open>items\<close> and \<open>prices\<close>; the records of the returned array are
  \<open>calculateProfits items prices\<close>, a function of the two contents alone. A second
  call on the heap that the first one left returns another new array with the same
  records, and again changes no earlier cell.
\<close>

theorem calculateProfits_pure:
  assumes "catalog_of h items_addr = Some items"
    and "prices_well_formed h prices_addr"
    and "prices_of h prices_addr = Some prices"
    and "length items < fuel"
  shows "\<exists>h'. calculateProfits_on_heap fuel items_addr prices_addr h = Some (length h, h') \<and>
           take (length h) h' = h \<and>
           records_of h' (length h) = Some (calculateProfits items prices) \<and>
           catalog_of h' items_addr = Some items \<and>
           prices_of h' prices_addr = Some prices \<and>
           (\<exists>h''. calculateProfits_on_heap fuel items_addr prices_addr h' =
                     Some (length h', h'') \<and>
                   take (length h') h'' = h' \<and>
                   records_of h'' (length h') = Some (calculateProfits items prices) \<and>
                   records_of h'' (length h) = Some (calculateProfits items prices) \<and>
                   catalog_of h'' items_addr = Some items \<and>
                   prices_of h'' prices_addr = Some prices)"
proof -
  from calculateProfits_on_heap_result [OF assms]
  obtain t where run: "calculateProfits_on_heap fuel items_addr prices_addr h =
      Some (length h, h @ t)"
    and records: "records_of (h @ t) (length h) = Some (calculateProfits items prices)"
    by blast
  have cat: "catalog_of (h @ t) items_addr = Some items"
    using assms(1) by (rule catalog_of_append)
  from prices_of_append [OF assms(2,3)]
  have wf: "prices_well_formed (h @ t) prices_addr"
    and prices: "prices_of (h @ t) prices_addr = Some prices"
    by simp_all
  from calculateProfits_on_heap_result [OF cat wf prices assms(4)]
  obtain t' where run': "calculateProfits_on_heap fuel items_addr prices_addr (h @ t) =
      Some (length (h @ t), (h @ t) @ t')"
    and records': "records_of ((h @ t) @ t') (length (h @ t)) =
      Some (calculateProfits items prices)"
    by blast
  have cat': "catalog_of ((h @ t) @ t') items_addr = Some items"
    using cat by (rule catalog_of_append)
  from prices_of_append [OF wf prices]
  have prices': "prices_of ((h @ t) @ t') prices_addr = Some prices"
    by simp
  have first': "records_of ((h @ t) @ t') (length h) = Some (calculateProfits items prices)"
  proof -
    from records obtain ys where ys: "array_at (h @ t) (length h) = Some ys"
      and rs: "those (map (record_at (h @ t)) ys) = Some (calculateProfits items prices)"
      by (auto simp: records_of_def split: option.splits)
    from those_map_Some [OF rs]
    have at: "\<And>k. k < length ys \<Longrightarrow>
        record_at (h @ t) (ys ! k) = Some (calculateProfits items prices ! k)"
      by simp
    have eq: "map (record_at ((h @ t) @ t')) ys = map (record_at (h @ t)) ys"
    proof (rule nth_equalityI)
      show "length (map (record_at ((h @ t) @ t')) ys) = length (map (record_at (h @ t)) ys)"
        by simp
    next
      fix k assume "k < length (map (record_at ((h @ t) @ t')) ys)"
      then have k: "k < length ys" by simp
      from at [OF k] have "record_at ((h @ t) @ t') (ys ! k) =
          Some (calculateProfits items prices ! k)"
        by (auto simp: record_at_def nth_append split: if_splits)
      with at [OF k] k
      show "map (record_at ((h @ t) @ t')) ys ! k = map (record_at (h @ t)) ys ! k"
        by simp
    qed
    have "those (map (record_at ((h @ t) @ t')) ys) = Some (calculateProfits items prices)"
      unfolding eq by (rule rs)
    with array_at_append [OF ys, of t'] show ?thesis
      by (simp add: records_of_def)
  qed
  show ?thesis
  proof (intro exI conjI)
    show "calculateProfits_on_heap fuel items_addr prices_addr h = Some (length h, h @ t)"
      by (rule run)
    show "take (length h) (h @ t) = h" by simp
    show "records_of (h @ t) (length h) = Some (calculateProfits items prices)"
      by (rule records)
    show "catalog_of (h @ t) items_addr = Some items" by (rule cat)
    show "prices_of (h @ t) prices_addr = Some prices" by (rule prices)
    show "calculateProfits_on_heap fuel items_addr prices_addr (h @ t) =
        Some (length (h @ t), (h @ t) @ t')"
      by (rule run')
    show "take (length (h @ t)) ((h @ t) @ t') = h @ t" by simp
    show "records_of ((h @ t) @ t') (length (h @ t)) = Some (calculateProfits items prices)"
      by (rule records')
    show "records_of ((h @ t) @ t') (length h) = Some (calculateProfits items prices)"
      by (rule first')
    show "catalog_of ((h @ t) @ t') items_addr = Some items" by (rule cat')
    show "prices_of ((h @ t) @ t') prices_addr = Some prices" by (rule prices')
  qed
qed

lemma example_heap_catalog: "catalog_of example_heap 6 = Some summary_items"
  by (simp add: catalog_of_def array_at_def item_at_def example_heap_def summary_items_def)

lemma example_heap_well_formed: "prices_well_formed example_heap 5"
  by (simp add: prices_well_formed_def price_map_at_def price_at_def example_heap_def)

lemma example_heap_prices: "prices_of example_heap 5 = Some summary_prices"
  by (auto simp: prices_of_def price_map_at_def price_at_def example_heap_def
      summary_prices_def fun_eq_iff)

lemma example_heap_run:
  "calculateProfits_on_heap 3 6 5 example_heap =
     Some (7, example_heap @
              [Array [8, 9], Record_object alpha_record, Record_object beta_record])"
  by (simp add: calculateProfits_on_heap_def prices_of_def price_map_at_def price_at_def
      array_at_def item_at_def record_at_def profit_at_def new_object_def array_push_def
      array_sort_def loop_pass_def pushed_record_def NATURE_RUNE_PRICE_def or_else_def
      toString_eval double_round_eval sort_cmp_def example_heap_def alpha_record_def
      beta_record_def Let_def numeral_3_eq_3 split del: if_split)

theorem calculateProfits_pure_witness:
  "catalog_of example_heap 6 = Some summary_items \<and>
   prices_well_formed example_heap 5 \<and>
   prices_of example_heap 5 = Some summary_prices \<and>
   length summary_items < 3 \<and>
   calculateProfits_on_heap 3 6 5 example_heap =
     Some (7, example_heap @
              [Array [8, 9], Record_object alpha_record, Record_object beta_record]) \<and>
   (\<exists>h'. calculateProfits_on_heap 3 6 5 example_heap = Some (7, h') \<and>
      take 7 h' = example_heap \<and>
      records_of h' 7 = Some [alpha_record, beta_record] \<and>
      catalog_of h' 6 = Some summary_items \<and>
      prices_of h' 5 = Some summary_prices \<and>
      (\<exists>h''. calculateProfits_on_heap 3 6 5 h' = Some (length h', h'') \<and>
         take (length h') h'' = h' \<and>
         records_of h'' (length h') = Some [alpha_record, beta_record] \<and>
         records_of h'' 7 = Some [alpha_record, beta_record] \<and>
         catalog_of h'' 6 = Some summary_items \<and>
         prices_of h'' 5 = Some summary_prices))"
proof -
  have len: "length summary_items < 3"
    by (simp add: summary_items_def)
  have seven: "length example_heap = 7"
    by (simp add: example_heap_def)
  from calculateProfits_pure [where h = example_heap and items_addr = 6 and prices_addr = 5
      and items = summary_items and prices = summary_prices and fuel = 3,
      OF example_heap_catalog example_heap_well_formed example_heap_prices len]
  have "\<exists>h'. calculateProfits_on_heap 3 6 5 example_heap = Some (7, h') \<and>
      take 7 h' = example_heap \<and>
      records_of h' 7 = Some [alpha_record, beta_record] \<and>
      catalog_of h' 6 = Some summary_items \<and>
      prices_of h' 5 = Some summary_prices \<and>
      (\<exists>h''. calculateProfits_on_heap 3 6 5 h' = Some (length h', h'') \<and>
         take (length h') h'' = h' \<and>
         records_of h'' (length h') = Some [alpha_record, beta_record] \<and>
         records_of h'' 7 = Some [alpha_record, beta_record] \<and>
         catalog_of h'' 6 = Some summary_items \<and>
         prices_of h'' 5 = Some summary_prices)"
    by (simp only: seven summary_run)
  with example_heap_catalog example_heap_well_formed example_heap_prices len example_heap_run
  show ?thesis by blast
qed

end
